(* ===== verification/AG_Prelude.thy ===== *)
theory AG_Prelude
  imports Complex_Main "HOL-Library.Word"
begin

text \<open>
  Shared vocabulary of the AirGradient development: the types that name the model's
  quantities, the collections of rules the component theories register their facts in,
  and the generic lemmas on lists and options that the component proofs share.
  \<^item> \<open>model_simps\<close> collects the evaluation equations of recursive operations whose
    equations are not simplification rules by default (they unfold on closed inputs
    only); witnesses evaluate with \<open>simp add: model_simps\<close>.
  \<^item> \<open>wf_rules\<close> collects the lemmas that an operation preserves a well-formedness
    invariant; the invariant proofs of the loop run \<open>auto intro: wf_rules\<close>.
\<close>

named_theorems model_simps "evaluation equations of the model, for closed inputs"
named_theorems wf_rules "preservation of the model's well-formedness invariants"

text \<open>
  Time is the \<open>millis()\<close> clock in milliseconds, counted in \<open>nat\<close>. The model's clock
  never wraps, so it describes runs shorter than the 49.7 days after which the 32-bit
  counter of the device wraps. No theorem states that bound: it is a limit of the model,
  and what happens at the wrap is not modelled.
\<close>

type_synonym ms = nat

text \<open>
  A C \<open>int\<close> of the ESP8266 is 32 bits wide. The sketch's integers (the display phase,
  the particulate cache, sensor readings) are modelled as \<open>int\<close>. The only arithmetic
  the sketch does on them is the phase increment, and the run invariant of
  \<open>AG_Loop\<close> keeps the phase in \<open>[0, 3]\<close>. Readings are copied, never
  computed on, so no wrap-around is lost.
\<close>

type_synonym c_int = int

subsection \<open>Lists\<close>

lemma find_append_cases:
  "find P (xs @ ys) = (case find P xs of None \<Rightarrow> find P ys | Some x \<Rightarrow> Some x)"
  by (induction xs) auto

lemma find_append_left [simp]:
  "\<forall>y \<in> set ys. \<not> P y \<Longrightarrow> find P (xs @ ys) = find P xs"
  by (induction xs) (auto simp: find_None_iff)

lemma find_filter_other:
  "(\<And>x. P x \<Longrightarrow> Q x) \<Longrightarrow> find P (filter Q xs) = find P xs"
  by (induction xs) auto

lemma sorted_wrt_append_less:
  "sorted_wrt (<) (xs :: nat list) \<Longrightarrow> sorted_wrt (<) ys \<Longrightarrow>
   (\<forall>x \<in> set xs. x < k) \<Longrightarrow> (\<forall>y \<in> set ys. k \<le> y) \<Longrightarrow> sorted_wrt (<) (xs @ ys)"
  unfolding sorted_wrt_append by (fastforce intro: less_le_trans)

lemma dropWhile_neq_append [simp]:
  "x \<notin> set xs \<Longrightarrow> dropWhile (\<lambda>c. c \<noteq> x) (xs @ ys) = dropWhile (\<lambda>c. c \<noteq> x) ys"
  by (induction xs) auto

lemma takeWhile_neq_append [simp]:
  "x \<notin> set xs \<Longrightarrow> takeWhile (\<lambda>c. c \<noteq> x) (xs @ ys) = xs @ takeWhile (\<lambda>c. c \<noteq> x) ys"
  by (induction xs) auto

subsection \<open>Options\<close>

lemma bind_eq_Some_split:
  "Option.bind m f = Some y \<longleftrightarrow> (\<exists>x. m = Some x \<and> f x = Some y)"
  by (cases m) auto

lemma map_option_eq_Some_split:
  "map_option f m = Some y \<longleftrightarrow> (\<exists>x. m = Some x \<and> y = f x)"
  by (cases m) auto

end
