(* ===== verification/AG_String.thy ===== *)
theory AG_String
  imports AG_Prelude
begin

text \<open>
  The Arduino \<open>String\<close> conversions the sketch uses to build display lines, metric
  samples and the diagnostic page: \<open>String(int)\<close> and \<open>String(x, HEX)\<close> (the core's
  \<open>itoa\<close>/\<open>utoa\<close>), and \<open>String(float, prec)\<close> (the core's \<open>dtostrf\<close> with width
  \<open>prec + 2\<close>). A \<open>String\<close> is a \<open>char list\<close> and \<open>+=\<close> is \<open>@\<close>. The reading side of
  the exposition format, a decimal parser, is an abstract specification here: the
  round trip \<open>parse_int (String_int v) = Some v\<close> says that a scraper recovers every
  integer sample exactly.
\<close>

subsection \<open>Digits\<close>

definition digit_char :: "nat \<Rightarrow> char" where
  "digit_char d = ''0123456789abcdef'' ! d"

text \<open>\<open>utoa(n, buf, base)\<close>: the digits of \<open>n\<close>, most significant first, lower-case.\<close>

function utoa :: "nat \<Rightarrow> nat \<Rightarrow> string" where
  "utoa b n =
     (if b < 2 \<or> 16 < b then ''''
      else if n < b then [digit_char n]
      else utoa b (n div b) @ [digit_char (n mod b)])"
  by pat_completeness auto
termination
  by (relation "measure (\<lambda>(b, n). n)") auto

declare utoa.simps [simp del, model_simps]

text \<open>\<open>String(int value)\<close>: \<open>itoa\<close> in base 10, a minus sign for negative values.\<close>

definition String_int :: "c_int \<Rightarrow> string" where
  "String_int v = (if v < 0 then CHR ''-'' # utoa 10 (nat (- v)) else utoa 10 (nat v))"

definition zero_pad :: "nat \<Rightarrow> string \<Rightarrow> string" where
  "zero_pad w s = replicate (w - length s) CHR ''0'' @ s"

text \<open>
  \<open>String(float value, prec)\<close>: \<open>dtostrf(value, prec + 2, prec, buf)\<close>. The
  magnitude is rounded half-up at \<open>prec\<close> decimals, the integer part printed, then a
  point and exactly \<open>prec\<close> fraction digits; the width \<open>prec + 2\<close> never pads, since
  the integer part has at least one digit. The value is a \<open>real\<close>: the model computes
  exactly where the device rounds in binary floating point, and has no NaN or infinity.
\<close>

definition String_float :: "nat \<Rightarrow> real \<Rightarrow> string" where
  "String_float prec x =
     (let n = nat \<lfloor>\<bar>x\<bar> * 10 ^ prec + 1 / 2\<rfloor>
      in (if x < 0 then ''-'' else '''') @ utoa 10 (n div 10 ^ prec) @
         (if prec = 0 then '''' else CHR ''.'' # zero_pad prec (utoa 10 (n mod 10 ^ prec))))"

subsection \<open>Reading numbers back\<close>

definition char_digit :: "char \<Rightarrow> nat option" where
  "char_digit c = (let k = of_char c in if 48 \<le> k \<and> k < 58 then Some (k - 48) else None)"

fun parse_digits :: "nat \<Rightarrow> string \<Rightarrow> nat option" where
  "parse_digits acc [] = Some acc"
| "parse_digits acc (c # cs) =
     (case char_digit c of None \<Rightarrow> None | Some d \<Rightarrow> parse_digits (10 * acc + d) cs)"

definition parse_nat :: "string \<Rightarrow> nat option" where
  "parse_nat s = (if s = [] then None else parse_digits 0 s)"

definition parse_int :: "string \<Rightarrow> c_int option" where
  "parse_int s =
     (case s of
        c # r \<Rightarrow> if c = CHR ''-'' then map_option (\<lambda>n. - int n) (parse_nat r)
                 else map_option int (parse_nat s)
      | [] \<Rightarrow> None)"

subsection \<open>Facts about the conversions\<close>

lemma char_digit_digit_char [simp]: "d < 10 \<Longrightarrow> char_digit (digit_char d) = Some d"
proof -
  assume "d < 10"
  then have "d \<in> {0, 1, 2, 3, 4, 5, 6, 7, 8, 9}" by auto
  then show ?thesis by (auto simp: char_digit_def digit_char_def)
qed

lemma utoa_10: "utoa 10 n = (if n < 10 then [digit_char n] else utoa 10 (n div 10) @ [digit_char (n mod 10)])"
  by (simp add: utoa.simps)

lemma utoa_10_ne [simp]: "utoa 10 n \<noteq> []"
  by (subst utoa_10) simp

lemma utoa_10_digits: "c \<in> set (utoa 10 n) \<Longrightarrow> char_digit c \<noteq> None"
proof (induction n rule: less_induct)
  case (less n)
  show ?case
  proof (cases "n < 10")
    case True
    with less.prems show ?thesis by (simp add: utoa_10 [of n])
  next
    case False
    then have "n div 10 < n" by simp
    with False less.prems less.IH [of "n div 10"] show ?thesis by (auto simp: utoa_10 [of n])
  qed
qed

lemma parse_digits_append:
  "parse_digits acc (xs @ ys) = Option.bind (parse_digits acc xs) (\<lambda>a. parse_digits a ys)"
  by (induction acc xs rule: parse_digits.induct) (auto split: option.split)

lemma parse_digits_utoa_10:
  "parse_digits acc (utoa 10 n) = Some (acc * 10 ^ length (utoa 10 n) + n)"
proof (induction n arbitrary: acc rule: less_induct)
  case (less n)
  show ?case
  proof (cases "n < 10")
    case True
    then show ?thesis by (simp add: utoa_10 [of n])
  next
    case False
    then have lt: "n div 10 < n" by simp
    have "10 * (n div 10) + n mod 10 = n" by simp
    with False less.IH [OF lt] show ?thesis
      by (simp add: utoa_10 [of n] parse_digits_append algebra_simps)
  qed
qed

lemma parse_nat_utoa_10 [simp]: "parse_nat (utoa 10 n) = Some n"
  by (simp add: parse_nat_def parse_digits_utoa_10)

lemma utoa_10_hd_not_minus: "utoa 10 n = c # r \<Longrightarrow> c \<noteq> CHR ''-''"
  using utoa_10_digits [of c n] by (auto simp: char_digit_def)

lemma String_int_chars: "c \<in> set (String_int v) \<Longrightarrow> c = CHR ''-'' \<or> char_digit c \<noteq> None"
  using utoa_10_digits by (auto simp: String_int_def split: if_splits)

lemma String_int_no_newline [simp]: "CHR 0x0A \<notin> set (String_int v)"
  using String_int_chars [of "CHR 0x0A" v] by (auto simp: char_digit_def)

text \<open>
  Round trip. Every integer the sketch prints with \<open>String(int)\<close> (a PM2.5 or
  CO2 sample, an argument count) is read back exactly by a decimal parser: the
  conversion loses nothing, for negative values too.
\<close>

theorem String_int_roundtrip: "parse_int (String_int v) = Some v"
proof (cases "v < 0")
  case True
  then show ?thesis by (simp add: String_int_def parse_int_def)
next
  case False
  obtain c r where cr: "utoa 10 (nat v) = c # r"
    using utoa_10_ne by (cases "utoa 10 (nat v)") auto
  then have "c \<noteq> CHR ''-''" by (rule utoa_10_hd_not_minus)
  moreover have "parse_nat (c # r) = Some (nat v)" using cr [symmetric] by simp
  ultimately show ?thesis using False cr by (simp add: String_int_def parse_int_def)
qed

lemma char_digit_zero [simp]: "char_digit (CHR ''0'') = Some 0"
  by (simp add: char_digit_def)

lemma String_float_chars:
  "c \<in> set (String_float p x) \<Longrightarrow> c = CHR ''-'' \<or> c = CHR ''.'' \<or> char_digit c \<noteq> None"
  using utoa_10_digits by (auto simp: String_float_def Let_def zero_pad_def split: if_splits)

lemma String_float_no_newline [simp]: "CHR 0x0A \<notin> set (String_float p x)"
  using String_float_chars [of "CHR 0x0A" p x] by (auto simp: char_digit_def)

lemma String_int_no_brace [simp]: "CHR ''}'' \<notin> set (String_int v)"
  using String_int_chars [of "CHR ''}''" v] by (auto simp: char_digit_def)

lemma String_float_no_brace [simp]: "CHR ''}'' \<notin> set (String_float p x)"
  using String_float_chars [of "CHR ''}''" p x] by (auto simp: char_digit_def)

end
