(* ===== verification/AG_Config.thy ===== *)
theory AG_Config
  imports AG_String
begin

text \<open>
  The build-time configuration of the sketch (\<open>src/main.cpp\<close>, the block between
  \<open>Config\<close> and \<open>Config End\<close>) and the user settings of the refactored firmware
  (\<open>src/Configuration/user.cpp\<close>). The capability flags gate sampling and export, the
  three periods drive the scheduler. WiFi credentials and the static address belong to
  the network stack, which is not modelled.
\<close>

record config =
  deviceId :: string
  hasPM :: bool
  hasCO2 :: bool
  hasSHT :: bool
  port :: c_int
  screenUpdateFrequencyMs :: ms
  pmSensorOnForMs :: ms
  pmSensorOnPeriodMs :: ms

definition main_config :: config where
  "main_config =
     \<lparr>deviceId = '''', hasPM = True, hasCO2 = True, hasSHT = True, port = 9925,
      screenUpdateFrequencyMs = 5000, pmSensorOnForMs = 30000, pmSensorOnPeriodMs = 120000\<rparr>"

text \<open>
  The settings of \<open>user.cpp\<close>: the port is a \<open>uint16_t\<close> there, an \<open>int\<close> in the sketch.
\<close>

record user_settings =
  us_screenUpdateFrequencyMs :: ms
  us_deviceId :: string
  us_port :: "16 word"

definition user_config :: user_settings where
  "user_config = \<lparr>us_screenUpdateFrequencyMs = 5000, us_deviceId = ''testboard'', us_port = 9925\<rparr>"

text \<open>
  The timing discipline the power cycle relies on: positive periods, and the sensor's
  on-window shorter than its cycle. The scheduler theorems assume positive periods.
\<close>

definition timing_ok :: "config \<Rightarrow> bool" where
  "timing_ok cfg \<longleftrightarrow>
     0 < screenUpdateFrequencyMs cfg \<and> 0 < pmSensorOnForMs cfg \<and>
     pmSensorOnForMs cfg < pmSensorOnPeriodMs cfg"

lemma timing_ok_main [simp]: "timing_ok main_config"
  by (simp add: timing_ok_def main_config_def)

end
