(* ===== verification/AG_Timer.thy ===== *)
theory AG_Timer
  imports AG_Prelude
begin

text \<open>
  The cooperative timer the sketch drives from \<open>loop()\<close> (\<open>arduino-timer\<close>'s
  \<open>timer.every\<close>, \<open>timer.in\<close> and \<open>timer.tick\<close>, spec section 4.1). The library is not
  part of the repository; its behaviour is taken from the spec. A task has an identifier
  given at registration, a handler, the time it is next due (\<open>target\<close>), its period or
  delay, and whether it repeats. The task table is kept in registration order.

  \<open>tick\<close> visits the tasks present when it starts, in registration order. A due one-shot
  task is removed before its handler runs. A due recurring task runs, then is re-armed
  at the first point of its arithmetic sequence \<open>target + k * period\<close> after the tick's
  time: no drift, and a late tick fires a missed task once, not once per missed period.
  A handler returning \<open>False\<close> cancels a recurring task, as in the library.

  Handlers are a parameter (a \<open>runner\<close>) of the scheduler: the theorems here hold for
  any runner that only appends fresh, future tasks (\<open>runner_ok\<close>). The node theory
  proves that the sketch's handlers are such a runner. A runner returns \<open>None\<close> when a
  handler never returns (the CO2 retry loop), and then the whole tick is \<open>None\<close>.
\<close>

record 'h task =
  tid :: nat
  handler :: 'h
  target :: ms
  period :: ms
  repeat :: bool

record 'h sched =
  tasks :: "'h task list"
  next_id :: nat

type_synonym ('h, 'a) runner =
  "'h \<Rightarrow> ms \<Rightarrow> ('h, 'a) sched_scheme \<Rightarrow> (bool \<times> ('h, 'a) sched_scheme) option"

subsection \<open>Registration\<close>

definition add_task :: "ms \<Rightarrow> ms \<Rightarrow> bool \<Rightarrow> 'h \<Rightarrow> ('h, 'a) sched_scheme \<Rightarrow> ('h, 'a) sched_scheme" where
  "add_task now d rep h s =
     s\<lparr>tasks := tasks s @ [\<lparr>tid = next_id s, handler = h, target = now + d, period = d, repeat = rep\<rparr>],
       next_id := Suc (next_id s)\<rparr>"

definition timer_every :: "ms \<Rightarrow> ms \<Rightarrow> 'h \<Rightarrow> ('h, 'a) sched_scheme \<Rightarrow> ('h, 'a) sched_scheme" where
  "timer_every now p h s = add_task now p True h s"

definition timer_in :: "ms \<Rightarrow> ms \<Rightarrow> 'h \<Rightarrow> ('h, 'a) sched_scheme \<Rightarrow> ('h, 'a) sched_scheme" where
  "timer_in now d h s = add_task now d False h s"

subsection \<open>The task table\<close>

definition lookup_task :: "nat \<Rightarrow> 'h task list \<Rightarrow> 'h task option" where
  "lookup_task i ts = find (\<lambda>t. tid t = i) ts"

definition remove_task :: "nat \<Rightarrow> ('h, 'a) sched_scheme \<Rightarrow> ('h, 'a) sched_scheme" where
  "remove_task i s = s\<lparr>tasks := filter (\<lambda>t. tid t \<noteq> i) (tasks s)\<rparr>"

definition update_task ::
  "nat \<Rightarrow> ('h task \<Rightarrow> 'h task) \<Rightarrow> ('h, 'a) sched_scheme \<Rightarrow> ('h, 'a) sched_scheme" where
  "update_task i f s = s\<lparr>tasks := map (\<lambda>t. if tid t = i then f t else t) (tasks s)\<rparr>"

definition due :: "ms \<Rightarrow> 'h task \<Rightarrow> bool" where
  "due now t \<longleftrightarrow> target t \<le> now"

definition rearm :: "ms \<Rightarrow> 'h task \<Rightarrow> 'h task" where
  "rearm now t = t\<lparr>target := target t + period t * Suc ((now - target t) div period t)\<rparr>"

subsection \<open>One tick\<close>

definition fire :: "('h, 'a) runner \<Rightarrow> ms \<Rightarrow> 'h task \<Rightarrow> ('h, 'a) sched_scheme \<Rightarrow> ('h, 'a) sched_scheme option" where
  "fire run now t s =
     (if repeat t then
        Option.bind (run (handler t) now s)
          (\<lambda>(keep, s'). Some (if keep then update_task (tid t) (rearm now) s' else remove_task (tid t) s'))
      else map_option snd (run (handler t) now (remove_task (tid t) s)))"

fun tick_ids :: "('h, 'a) runner \<Rightarrow> ms \<Rightarrow> nat list \<Rightarrow> ('h, 'a) sched_scheme \<Rightarrow> (nat list \<times> ('h, 'a) sched_scheme) option" where
  "tick_ids run now [] s = Some ([], s)"
| "tick_ids run now (i # is) s =
     (case lookup_task i (tasks s) of
        None \<Rightarrow> tick_ids run now is s
      | Some t \<Rightarrow>
          if due now t then
            Option.bind (fire run now t s)
              (\<lambda>s'. map_option (\<lambda>(fs, s''). (i # fs, s'')) (tick_ids run now is s'))
          else tick_ids run now is s)"

text \<open>\<open>tick\<close> returns the identifiers of the tasks it fired, in firing order, and the new state.\<close>

definition tick :: "('h, 'a) runner \<Rightarrow> ms \<Rightarrow> ('h, 'a) sched_scheme \<Rightarrow> (nat list \<times> ('h, 'a) sched_scheme) option" where
  "tick run now s = tick_ids run now (map tid (tasks s)) s"

subsection \<open>Well-formedness and the runner contract\<close>

text \<open>
  The table is in registration order (identifiers strictly increasing, all below the
  next identifier to hand out), and every recurring task has a positive period.
\<close>

definition sched_wf :: "('h, 'a) sched_scheme \<Rightarrow> bool" where
  "sched_wf s \<longleftrightarrow>
     sorted_wrt (<) (map tid (tasks s)) \<and>
     (\<forall>t \<in> set (tasks s). tid t < next_id s \<and> (repeat t \<longrightarrow> 0 < period t))"

definition fresh_tasks :: "ms \<Rightarrow> nat \<Rightarrow> nat \<Rightarrow> 'h task list \<Rightarrow> bool" where
  "fresh_tasks now lo hi new \<longleftrightarrow>
     sorted_wrt (<) (map tid new) \<and>
     (\<forall>t \<in> set new. lo \<le> tid t \<and> tid t < hi \<and> now < target t \<and> (repeat t \<longrightarrow> 0 < period t))"

definition appends_tasks :: "ms \<Rightarrow> ('h, 'a) sched_scheme \<Rightarrow> ('h, 'a) sched_scheme \<Rightarrow> bool" where
  "appends_tasks now s s' \<longleftrightarrow>
     next_id s \<le> next_id s' \<and>
     (\<exists>new. tasks s' = tasks s @ new \<and> fresh_tasks now (next_id s) (next_id s') new)"

definition runner_ok :: "('h, 'a) runner \<Rightarrow> bool" where
  "runner_ok run \<longleftrightarrow> (\<forall>h now s r. run h now s = Some r \<longrightarrow> appends_tasks now s (snd r))"

text \<open>
  Two views used by the proofs: the table after one task has fired (re-armed or
  removed), and whether an identifier names a task due at a given time.
\<close>

definition after_fire :: "ms \<Rightarrow> 'h task \<Rightarrow> bool \<Rightarrow> 'h task list \<Rightarrow> 'h task list" where
  "after_fire now t keep ts =
     (if repeat t \<and> keep then map (\<lambda>u. if tid u = tid t then rearm now u else u) ts
      else filter (\<lambda>u. tid u \<noteq> tid t) ts)"

definition due_id :: "ms \<Rightarrow> 'h task list \<Rightarrow> nat \<Rightarrow> bool" where
  "due_id now ts i = (case lookup_task i ts of Some t \<Rightarrow> due now t | None \<Rightarrow> False)"

subsection \<open>Re-arming\<close>

lemma rearm_fields [simp]:
  "tid (rearm now t) = tid t" "handler (rearm now t) = handler t"
  "period (rearm now t) = period t" "repeat (rearm now t) = repeat t"
  by (simp_all add: rearm_def)

lemma less_mult_Suc_div: "0 < (p::nat) \<Longrightarrow> n < p * Suc (n div p)"
proof -
  assume "0 < p"
  then have "n mod p < p" by simp
  moreover have "p * (n div p) + n mod p = n" by (rule mult_div_mod_eq)
  ultimately show ?thesis by (simp only: mult_Suc_right)
qed

lemma rearm_after_now: "0 < period t \<Longrightarrow> now < target (rearm now t)"
  using less_mult_Suc_div [of "period t" "now - target t"] by (simp add: rearm_def)

lemma rearm_not_due [simp]: "0 < period t \<Longrightarrow> \<not> due now (rearm now t)"
  by (simp add: due_def rearm_after_now not_le)

lemma rearm_same_phase: "target (rearm now t) mod period t = target t mod period t"
proof -
  have "target (rearm now t) = target t + period t * Suc ((now - target t) div period t)"
    by (simp add: rearm_def)
  then show ?thesis by (simp only: mod_mult_self2)
qed

lemma rearm_on_time:
  assumes "now < target t + period t"
  shows "target (rearm now t) = target t + period t"
proof (cases "period t = 0")
  case True
  then show ?thesis by (simp add: rearm_def)
next
  case False
  with assms have "now - target t < period t" by arith
  then have "(now - target t) div period t = 0" by simp
  then show ?thesis by (simp add: rearm_def)
qed

lemma rearm_within_period:
  "due now t \<Longrightarrow> target (rearm now t) \<le> now + period t"
proof -
  assume "due now t"
  then have le: "target t \<le> now" by (simp add: due_def)
  have q: "period t * ((now - target t) div period t) \<le> now - target t"
    by (rule times_div_less_eq_dividend)
  have "target (rearm now t) = target t + period t * ((now - target t) div period t) + period t"
    by (simp add: rearm_def)
  with le q show ?thesis by linarith
qed

subsection \<open>Lookups in the table\<close>

lemma lookup_task_Some: "lookup_task i ts = Some t \<Longrightarrow> tid t = i \<and> t \<in> set ts"
  by (induction ts) (auto simp: lookup_task_def split: if_splits)

lemma lookup_task_append_old:
  "\<forall>t \<in> set new. tid t \<noteq> i \<Longrightarrow> lookup_task i (ts @ new) = lookup_task i ts"
  by (simp add: lookup_task_def)

lemma lookup_task_filter_other:
  "j \<noteq> i \<Longrightarrow> lookup_task j (filter (\<lambda>t. tid t \<noteq> i) ts) = lookup_task j ts"
  unfolding lookup_task_def by (rule find_filter_other) simp

lemma lookup_task_rearm_other:
  "j \<noteq> i \<Longrightarrow> lookup_task j (map (\<lambda>t. if tid t = i then rearm now t else t) ts) = lookup_task j ts"
  by (induction ts) (simp_all add: lookup_task_def)

lemma lookup_task_distinct:
  "distinct (map tid ts) \<Longrightarrow> t \<in> set ts \<Longrightarrow> lookup_task (tid t) ts = Some t"
  by (induction ts) (auto simp: lookup_task_def)

subsection \<open>Firing one task\<close>

lemma fresh_tasks_above: "fresh_tasks now lo hi new \<Longrightarrow> u \<in> set new \<Longrightarrow> i < lo \<Longrightarrow> tid u \<noteq> i"
  by (auto simp: fresh_tasks_def)

lemma after_fire_append:
  "\<forall>u \<in> set new. tid u \<noteq> tid t \<Longrightarrow>
   after_fire now t keep (ts @ new) = after_fire now t keep ts @ new"
  unfolding after_fire_def by (auto intro!: map_idI)

lemma fire_Some:
  assumes run: "runner_ok run" and f: "fire run now t s = Some s'" and lt: "tid t < next_id s"
  shows "\<exists>keep new. tasks s' = after_fire now t keep (tasks s) @ new \<and>
           next_id s \<le> next_id s' \<and> fresh_tasks now (next_id s) (next_id s') new"
proof (cases "repeat t")
  case True
  from f True obtain keep s1 where r: "run (handler t) now s = Some (keep, s1)"
    and s': "s' = (if keep then update_task (tid t) (rearm now) s1 else remove_task (tid t) s1)"
    by (auto simp: fire_def bind_eq_Some_split split: prod.splits)
  from run r have "appends_tasks now s s1" by (force simp: runner_ok_def)
  then obtain new where new: "tasks s1 = tasks s @ new" "fresh_tasks now (next_id s) (next_id s1) new"
    and nid: "next_id s \<le> next_id s1" by (auto simp: appends_tasks_def)
  from new(2) lt have fresh: "\<forall>u \<in> set new. tid u \<noteq> tid t" by (blast dest: fresh_tasks_above)
  have "tasks s' = after_fire now t keep (tasks s @ new)"
    using s' new(1) True by (simp add: update_task_def remove_task_def after_fire_def)
  then have "tasks s' = after_fire now t keep (tasks s) @ new"
    using fresh by (simp add: after_fire_append)
  moreover have "next_id s' = next_id s1" using s' by (simp add: update_task_def remove_task_def)
  ultimately show ?thesis using new(2) nid by auto
next
  case False
  from f False obtain keep s1 where r: "run (handler t) now (remove_task (tid t) s) = Some (keep, s1)"
    and s': "s' = s1"
    by (auto simp: fire_def map_option_eq_Some_split)
  from run r have "appends_tasks now (remove_task (tid t) s) s1" by (force simp: runner_ok_def)
  then obtain new where new: "tasks s1 = filter (\<lambda>u. tid u \<noteq> tid t) (tasks s) @ new"
    "fresh_tasks now (next_id s) (next_id s1) new" and nid: "next_id s \<le> next_id s1"
    by (auto simp: appends_tasks_def remove_task_def)
  then show ?thesis using s' False by (auto simp: after_fire_def)
qed

lemma lookup_after_fire_other:
  "j \<noteq> tid t \<Longrightarrow> lookup_task j (after_fire now t keep ts) = lookup_task j ts"
  by (simp add: after_fire_def lookup_task_filter_other lookup_task_rearm_other)

lemma fire_lookup_other:
  assumes "runner_ok run" "fire run now t s = Some s'" "tid t < next_id s" "j \<noteq> tid t" "j < next_id s"
  shows "lookup_task j (tasks s') = lookup_task j (tasks s)"
proof -
  from fire_Some [OF assms(1-3)] obtain keep new where
    s': "tasks s' = after_fire now t keep (tasks s) @ new" and fr: "fresh_tasks now (next_id s) (next_id s') new"
    by blast
  from fr assms(5) have "\<forall>u \<in> set new. tid u \<noteq> j" by (blast dest: fresh_tasks_above)
  then show ?thesis using s' assms(4) by (simp add: lookup_task_append_old lookup_after_fire_other)
qed

lemma fire_next_id: "runner_ok run \<Longrightarrow> fire run now t s = Some s' \<Longrightarrow> tid t < next_id s \<Longrightarrow> next_id s \<le> next_id s'"
  by (blast dest: fire_Some)

subsection \<open>A tick fires the due tasks in registration order\<close>

lemma tick_ids_step_Some:
  assumes "tick_ids run now (i # is) s = Some (fs, s')" "lookup_task i (tasks s) = Some t" "due now t"
  shows "\<exists>s1 fs1. fire run now t s = Some s1 \<and> tick_ids run now is s1 = Some (fs1, s') \<and> fs = i # fs1"
  using assms by (auto simp: bind_eq_Some_split map_option_eq_Some_split)

lemma tick_ids_fired:
  assumes "runner_ok run" "tick_ids run now is s = Some (fs, s')"
    "distinct is" "\<forall>i \<in> set is. i < next_id s"
  shows "fs = filter (due_id now (tasks s)) is"
  using assms(2-4)
proof (induction "is" arbitrary: s fs)
  case Nil
  then show ?case by simp
next
  case (Cons i "is")
  show ?case
  proof (cases "due_id now (tasks s) i")
    case False
    then have "tick_ids run now is s = Some (fs, s')"
      using Cons.prems(1) by (auto simp: due_id_def split: option.splits if_splits)
    with Cons.IH Cons.prems False show ?thesis by simp
  next
    case True
    then obtain t where lk: "lookup_task i (tasks s) = Some t" and d: "due now t"
      by (auto simp: due_id_def split: option.splits)
    then have ti: "tid t = i" by (blast dest: lookup_task_Some)
    from tick_ids_step_Some [OF Cons.prems(1) lk d] obtain s1 fs1 where
      f: "fire run now t s = Some s1" and r: "tick_ids run now is s1 = Some (fs1, s')" and fs: "fs = i # fs1"
      by blast
    have lt: "tid t < next_id s" using ti Cons.prems(3) by simp
    with assms(1) f have "next_id s \<le> next_id s1" by (rule fire_next_id)
    with Cons.prems(3) have "\<forall>j \<in> set is. j < next_id s1" by auto
    with Cons.IH r Cons.prems(2) have fs1: "fs1 = filter (due_id now (tasks s1)) is" by simp
    have "\<forall>j \<in> set is. lookup_task j (tasks s1) = lookup_task j (tasks s)"
    proof
      fix j assume j: "j \<in> set is"
      with Cons.prems(2) ti have "j \<noteq> tid t" by auto
      moreover from j Cons.prems(3) have "j < next_id s" by simp
      ultimately show "lookup_task j (tasks s1) = lookup_task j (tasks s)"
        by (rule fire_lookup_other [OF assms(1) f lt])
    qed
    then have "filter (due_id now (tasks s1)) is = filter (due_id now (tasks s)) is"
      by (auto simp: due_id_def intro: filter_cong)
    with fs fs1 True show ?thesis by simp
  qed
qed

lemma sched_wf_distinct: "sched_wf s \<Longrightarrow> distinct (map tid (tasks s))"
  by (simp add: sched_wf_def strict_sorted_iff)

lemma filter_due_id:
  "distinct (map tid ts) \<Longrightarrow> filter (due_id now ts) (map tid ts) = map tid (filter (due now) ts)"
proof -
  assume dist: "distinct (map tid ts)"
  have "\<forall>t \<in> set ts. due_id now ts (tid t) = due now t"
    using lookup_task_distinct [OF dist] by (simp add: due_id_def)
  then show ?thesis by (simp add: filter_map comp_def cong: filter_cong)
qed

lemma tick_fired:
  assumes "runner_ok run" "sched_wf s" "tick run now s = Some (fs, s')"
  shows "fs = map tid (filter (due now) (tasks s))"
proof -
  have "fs = filter (due_id now (tasks s)) (map tid (tasks s))"
    using assms by (intro tick_ids_fired [OF assms(1)])
      (auto simp: tick_def sched_wf_def strict_sorted_iff)
  then show ?thesis using sched_wf_distinct [OF assms(2)] by (simp add: filter_due_id)
qed

subsection \<open>After a tick the table is well formed and nothing is due\<close>

lemma after_fire_members:
  "u \<in> set (after_fire now t keep ts) \<Longrightarrow>
   (tid u \<noteq> tid t \<and> u \<in> set ts) \<or> (\<exists>u0 \<in> set ts. tid u0 = tid t \<and> u = rearm now u0)"
  by (auto simp: after_fire_def split: if_splits)

lemma tid_comp_rearm [simp]: "tid \<circ> (\<lambda>u. if tid u = i then rearm now u else u) = tid"
  by (rule ext) simp

lemma map_tid_filter: "map tid (filter (\<lambda>u. tid u \<noteq> i) ts) = filter (\<lambda>j. j \<noteq> i) (map tid ts)"
  by (induction ts) auto

lemma map_tid_after_fire: "sorted_wrt (<) (map tid ts) \<Longrightarrow> sorted_wrt (<) (map tid (after_fire now t keep ts))"
  by (simp add: after_fire_def map_tid_filter sorted_wrt_filter)

lemma sched_wf_tid_inj:
  "sched_wf s \<Longrightarrow> u \<in> set (tasks s) \<Longrightarrow> v \<in> set (tasks s) \<Longrightarrow> tid u = tid v \<Longrightarrow> u = v"
  using sched_wf_distinct [of s] by (metis distinct_map inj_onD)

lemma fire_wf:
  assumes "runner_ok run" "fire run now t s = Some s'" "sched_wf s" "t \<in> set (tasks s)"
  shows "sched_wf s'"
proof -
  from assms(3,4) have lt: "tid t < next_id s" by (simp add: sched_wf_def)
  from fire_Some [OF assms(1,2) lt] obtain keep new where
    s': "tasks s' = after_fire now t keep (tasks s) @ new" and nid: "next_id s \<le> next_id s'"
    and fr: "fresh_tasks now (next_id s) (next_id s') new" by blast
  have old: "\<forall>u \<in> set (after_fire now t keep (tasks s)). tid u < next_id s \<and> (repeat u \<longrightarrow> 0 < period u)"
    using assms(3) by (fastforce simp: sched_wf_def dest: after_fire_members)
  have "sorted_wrt (<) (map tid (after_fire now t keep (tasks s)))"
    using assms(3) by (simp add: sched_wf_def map_tid_after_fire)
  then have "sorted_wrt (<) (map tid (after_fire now t keep (tasks s)) @ map tid new)"
    using old fr by (intro sorted_wrt_append_less [where k = "next_id s"]) (auto simp: fresh_tasks_def)
  then have "sorted_wrt (<) (map tid (tasks s'))" by (simp add: s')
  moreover have "\<forall>u \<in> set (tasks s'). tid u < next_id s' \<and> (repeat u \<longrightarrow> 0 < period u)"
    using old fr nid s' by (fastforce simp: fresh_tasks_def)
  ultimately show ?thesis by (simp add: sched_wf_def)
qed

lemma fire_settles:
  assumes "runner_ok run" "fire run now t s = Some s'" "sched_wf s" "t \<in> set (tasks s)"
    "\<forall>u \<in> set (tasks s). due now u \<longrightarrow> tid u \<in> set (tid t # is)"
  shows "\<forall>u \<in> set (tasks s'). due now u \<longrightarrow> tid u \<in> set is"
proof
  fix u assume u: "u \<in> set (tasks s')"
  from assms(3,4) have lt: "tid t < next_id s" by (simp add: sched_wf_def)
  from fire_Some [OF assms(1,2) lt] obtain keep new where
    s': "tasks s' = after_fire now t keep (tasks s) @ new"
    and fr: "fresh_tasks now (next_id s) (next_id s') new" by blast
  show "due now u \<longrightarrow> tid u \<in> set is"
  proof (cases "u \<in> set new")
    case True
    with fr show ?thesis by (auto simp: fresh_tasks_def due_def)
  next
    case False
    with u s' have "u \<in> set (after_fire now t keep (tasks s))" by simp
    then show ?thesis
    proof (rule after_fire_members [THEN disjE])
      assume "tid u \<noteq> tid t \<and> u \<in> set (tasks s)"
      with assms(5) show ?thesis by auto
    next
      assume "\<exists>u0 \<in> set (tasks s). tid u0 = tid t \<and> u = rearm now u0"
      then obtain u0 where u0: "u0 \<in> set (tasks s)" "tid u0 = tid t" "u = rearm now u0" by blast
      with assms(3,4) have "u0 = t" by (blast intro: sched_wf_tid_inj)
      have "repeat t"
        using \<open>u \<in> set (after_fire now t keep (tasks s))\<close> u0 by (auto simp: after_fire_def split: if_splits)
      with \<open>u0 = t\<close> assms(3,4) have "0 < period u0" by (simp add: sched_wf_def)
      with u0 show ?thesis by simp
    qed
  qed
qed

lemma due_ids_shrink:
  assumes "sched_wf s" "\<forall>u \<in> set (tasks s). due now u \<longrightarrow> tid u \<in> set (i # is)"
    "\<not> due_id now (tasks s) i"
  shows "\<forall>u \<in> set (tasks s). due now u \<longrightarrow> tid u \<in> set is"
proof (intro ballI impI)
  fix u assume u: "u \<in> set (tasks s)" and d: "due now u"
  have "lookup_task (tid u) (tasks s) = Some u"
    using lookup_task_distinct [OF sched_wf_distinct [OF assms(1)] u] .
  with assms(3) d have "tid u \<noteq> i" by (auto simp: due_id_def)
  with assms(2) u d show "tid u \<in> set is" by auto
qed

lemma tick_ids_settles:
  assumes "runner_ok run" "tick_ids run now is s = Some (fs, s')" "sched_wf s"
    "\<forall>u \<in> set (tasks s). due now u \<longrightarrow> tid u \<in> set is"
  shows "sched_wf s' \<and> (\<forall>u \<in> set (tasks s'). \<not> due now u)"
  using assms(2-4)
proof (induction "is" arbitrary: s fs)
  case Nil
  then show ?case by auto
next
  case (Cons i "is")
  show ?case
  proof (cases "due_id now (tasks s) i")
    case False
    then have "tick_ids run now is s = Some (fs, s')"
      using Cons.prems(1) by (auto simp: due_id_def split: option.splits if_splits)
    moreover have "\<forall>u \<in> set (tasks s). due now u \<longrightarrow> tid u \<in> set is"
      using due_ids_shrink [OF Cons.prems(2,3) False] .
    ultimately show ?thesis using Cons.IH Cons.prems(2) by blast
  next
    case True
    then obtain t where lk: "lookup_task i (tasks s) = Some t" and d: "due now t"
      by (auto simp: due_id_def split: option.splits)
    then have ti: "tid t = i" and tin: "t \<in> set (tasks s)" by (auto dest: lookup_task_Some)
    from tick_ids_step_Some [OF Cons.prems(1) lk d] obtain s1 fs1 where
      f: "fire run now t s = Some s1" and r: "tick_ids run now is s1 = Some (fs1, s')" by blast
    have "sched_wf s1" using fire_wf [OF assms(1) f Cons.prems(2) tin] .
    moreover have "\<forall>u \<in> set (tasks s1). due now u \<longrightarrow> tid u \<in> set is"
      using fire_settles [OF assms(1) f Cons.prems(2) tin] Cons.prems(3) ti by blast
    ultimately show ?thesis using Cons.IH r by blast
  qed
qed

lemma tick_settles:
  assumes "runner_ok run" "sched_wf s" "tick run now s = Some (fs, s')"
  shows "sched_wf s' \<and> (\<forall>u \<in> set (tasks s'). \<not> due now u)"
  using tick_ids_settles [OF assms(1) assms(3) [unfolded tick_def] assms(2)] by simp

lemma tick_ids_idle:
  "\<forall>i \<in> set is. \<not> due_id now (tasks s) i \<Longrightarrow> tick_ids run now is s = Some ([], s)"
  by (induction "is") (auto simp: due_id_def split: option.splits)

lemma tick_idle: "\<forall>u \<in> set (tasks s). \<not> due now u \<Longrightarrow> tick run now s = Some ([], s)"
  unfolding tick_def
  by (rule tick_ids_idle) (auto simp: due_id_def split: option.splits dest: lookup_task_Some)

subsection \<open>Invariants of the whole tick\<close>

text \<open>Any property of the state that every firing preserves holds after a tick.\<close>

lemma tick_ids_preserves:
  assumes "\<And>t s s'. Q s \<Longrightarrow> t \<in> set (tasks s) \<Longrightarrow> due now t \<Longrightarrow> fire run now t s = Some s' \<Longrightarrow> Q s'"
    "tick_ids run now is s = Some (fs, s')" "Q s"
  shows "Q s'"
  using assms(2,3)
proof (induction "is" arbitrary: s fs)
  case Nil
  then show ?case by simp
next
  case (Cons i "is")
  show ?case
  proof (cases "due_id now (tasks s) i")
    case False
    then have "tick_ids run now is s = Some (fs, s')"
      using Cons.prems(1) by (auto simp: due_id_def split: option.splits if_splits)
    with Cons.IH Cons.prems(2) show ?thesis by blast
  next
    case True
    then obtain t where lk: "lookup_task i (tasks s) = Some t" and d: "due now t"
      by (auto simp: due_id_def split: option.splits)
    then have tin: "t \<in> set (tasks s)" by (auto dest: lookup_task_Some)
    from tick_ids_step_Some [OF Cons.prems(1) lk d] obtain s1 fs1 where
      f: "fire run now t s = Some s1" and r: "tick_ids run now is s1 = Some (fs1, s')" by blast
    from assms(1) [OF Cons.prems(2) tin d f] have "Q s1" .
    with Cons.IH r show ?thesis by blast
  qed
qed

lemma tick_preserves:
  "(\<And>t s s'. Q s \<Longrightarrow> t \<in> set (tasks s) \<Longrightarrow> due now t \<Longrightarrow> fire run now t s = Some s' \<Longrightarrow> Q s') \<Longrightarrow>
   tick run now s = Some (fs, s') \<Longrightarrow> Q s \<Longrightarrow> Q s'"
  unfolding tick_def by (rule tick_ids_preserves)

end
