(* ===== verification/AG_State.thy ===== *)
theory AG_State
  imports AG_Config AG_Timer
begin

text \<open>
  The state of the sketch (\<open>src/main.cpp\<close>): its two housekeeping globals
  (\<open>counter\<close>, the display phase, and \<open>lastPM2\<close>, the cached particulate value), the
  timer's task table (inherited from \<open>sched\<close>), and the parts of the hardware the
  sketch drives: the power state of the PMS particulate sensor and the sequence of
  commands sent to the sensor and frames drawn on the display (\<open>hw_log\<close>, oldest first).

  The sensor drivers (\<open>AirGradient\<close> library) are external. Each raw read returns the
  next value of a fixed stream, the sensor's behaviour over time: \<open>pm_raw k\<close> is what
  the \<open>k\<close>-th call of \<open>ag.getPM2_Raw()\<close> returns, and likewise for CO2 and the
  temperature/humidity sensor. The state records how many values of each stream have
  been read, so every operation is a function of the state and the streams.
\<close>

text \<open>The callbacks the sketch hands to the timer (\<open>WakupPM2\<close>, \<open>SleepPM2\<close>, \<open>updateScreen\<close>).\<close>

datatype handler = H_WakupPM2 | H_SleepPM2 | H_updateScreen

datatype power_state = AWAKE | ASLEEP

text \<open>Commands to the hardware: \<open>ag.wakeUp()\<close>, \<open>ag.sleep()\<close>, and one frame of
  \<open>showTextRectangle(ln1, ln2, small)\<close>.\<close>

datatype hw_event = PMS_Wake | PMS_Sleep | Frame string string bool

text \<open>\<open>TMP_RH\<close> of the AirGradient library: a float temperature and an int humidity.\<close>

record TMP_RH =
  t :: real
  rh :: c_int

record sensors =
  pm_raw :: "nat \<Rightarrow> c_int"
  co2_raw :: "nat \<Rightarrow> c_int"
  sht_data :: "nat \<Rightarrow> TMP_RH"

record node = "handler sched" +
  counter :: c_int
  lastPM2 :: c_int
  pm_power :: power_state
  hw_log :: "hw_event list"
  pm_pos :: nat
  co2_pos :: nat
  sht_pos :: nat

text \<open>The state at power-on: globals initialised as declared, empty timer, no reads yet.
  The particulate sensor is running when the board powers up.\<close>

definition init_node :: node where
  "init_node =
     \<lparr>tasks = [], next_id = 0, counter = 0, lastPM2 = 0, pm_power = AWAKE, hw_log = [],
      pm_pos = 0, co2_pos = 0, sht_pos = 0\<rparr>"

subsection \<open>Driver primitives\<close>

definition getPM2_Raw :: "sensors \<Rightarrow> node \<Rightarrow> c_int \<times> node" where
  "getPM2_Raw env s = (pm_raw env (pm_pos s), s\<lparr>pm_pos := Suc (pm_pos s)\<rparr>)"

definition getCO2_Raw :: "sensors \<Rightarrow> node \<Rightarrow> c_int \<times> node" where
  "getCO2_Raw env s = (co2_raw env (co2_pos s), s\<lparr>co2_pos := Suc (co2_pos s)\<rparr>)"

definition periodicFetchData :: "sensors \<Rightarrow> node \<Rightarrow> TMP_RH \<times> node" where
  "periodicFetchData env s = (sht_data env (sht_pos s), s\<lparr>sht_pos := Suc (sht_pos s)\<rparr>)"

definition wakeUp :: "node \<Rightarrow> node" where
  "wakeUp s = s\<lparr>pm_power := AWAKE, hw_log := hw_log s @ [PMS_Wake]\<rparr>"

definition sleep :: "node \<Rightarrow> node" where
  "sleep s = s\<lparr>pm_power := ASLEEP, hw_log := hw_log s @ [PMS_Sleep]\<rparr>"

end
