(* ===== verification/AG_Sensors.thy ===== *)
theory AG_Sensors
  imports AG_State
begin

text \<open>
  Sensor acquisition (\<open>src/main.cpp\<close>, \<open>GetCO2\<close>, \<open>GetPM2\<close>, \<open>SetCurrentPM2\<close>). The CO2
  read retries until the raw value is inside the sensor's range \<open>(0, 60000)\<close>, with no
  bound on the number of retries: it is a \<open>partial_function (option)\<close>, whose value
  \<open>None\<close> is the loop that never ends. The particulate path never retries: \<open>GetPM2\<close>
  returns the cache, and \<open>SetCurrentPM2\<close> reads the sensor once, caches the reading only
  when it is positive, and returns the raw reading either way.

  The lemmas show that \<open>GetCO2\<close> returns exactly when a valid reading lies ahead in the
  stream, that it then returns the first one, and that it never returns otherwise.
\<close>

definition co2_valid :: "c_int \<Rightarrow> bool" where
  "co2_valid v \<longleftrightarrow> 0 < v \<and> v < 60000"

partial_function (option) GetCO2_loop :: "sensors \<Rightarrow> c_int \<Rightarrow> node \<Rightarrow> (c_int \<times> node) option" where
  "GetCO2_loop env stat s =
     (if stat \<le> 0 \<or> 60000 \<le> stat
      then (case getCO2_Raw env s of (stat', s') \<Rightarrow> GetCO2_loop env stat' s')
      else Some (stat, s))"

definition GetCO2 :: "sensors \<Rightarrow> node \<Rightarrow> (c_int \<times> node) option" where
  "GetCO2 env s = (case getCO2_Raw env s of (stat, s1) \<Rightarrow> GetCO2_loop env stat s1)"

definition GetPM2 :: "node \<Rightarrow> c_int" where
  "GetPM2 s = lastPM2 s"

definition SetCurrentPM2 :: "sensors \<Rightarrow> node \<Rightarrow> c_int \<times> node" where
  "SetCurrentPM2 env s =
     (case getPM2_Raw env s of (stat, s1) \<Rightarrow> (stat, if 0 < stat then s1\<lparr>lastPM2 := stat\<rparr> else s1))"

text \<open>What the retry loop guarantees when it returns (its partial correctness).\<close>

definition co2_loop_post :: "sensors \<Rightarrow> c_int \<Rightarrow> node \<Rightarrow> c_int \<times> node \<Rightarrow> bool" where
  "co2_loop_post env stat s r \<longleftrightarrow>
     (case r of (v, s') \<Rightarrow>
        co2_valid v \<and> s' = s\<lparr>co2_pos := co2_pos s'\<rparr> \<and> co2_pos s \<le> co2_pos s' \<and>
        (v = stat \<or> (\<exists>k. co2_pos s \<le> k \<and> k < co2_pos s' \<and> v = co2_raw env k)))"

subsection \<open>The CO2 retry loop\<close>

lemma co2_guard_iff [simp]: "(stat \<le> 0 \<or> 60000 \<le> stat) \<longleftrightarrow> \<not> co2_valid stat"
  by (auto simp: co2_valid_def)

lemma GetCO2_loop_valid:
  "co2_valid stat \<Longrightarrow> GetCO2_loop env stat s = Some (stat, s)"
  by (subst GetCO2_loop.simps) simp

lemma GetCO2_loop_retry:
  "\<not> co2_valid stat \<Longrightarrow>
   GetCO2_loop env stat s = GetCO2_loop env (co2_raw env (co2_pos s)) (s\<lparr>co2_pos := Suc (co2_pos s)\<rparr>)"
  by (subst GetCO2_loop.simps) (simp add: getCO2_Raw_def)

lemma GetCO2_loop_first:
  assumes "co2_pos s \<le> j" "co2_valid (co2_raw env j)"
    "\<forall>k. co2_pos s \<le> k \<and> k < j \<longrightarrow> \<not> co2_valid (co2_raw env k)" "\<not> co2_valid stat"
  shows "GetCO2_loop env stat s = Some (co2_raw env j, s\<lparr>co2_pos := Suc j\<rparr>)"
  using assms
proof (induction "j - co2_pos s" arbitrary: s stat)
  case 0
  then have "co2_pos s = j" by simp
  with "0.prems" show ?case by (simp add: GetCO2_loop_retry GetCO2_loop_valid)
next
  case (Suc d)
  then have lt: "co2_pos s < j" by simp
  let ?s1 = "s\<lparr>co2_pos := Suc (co2_pos s)\<rparr>"
  have "\<not> co2_valid (co2_raw env (co2_pos s))" using Suc.prems(3) lt by simp
  moreover have "d = j - co2_pos ?s1" using Suc.hyps(2) by simp
  ultimately have "GetCO2_loop env (co2_raw env (co2_pos s)) ?s1 = Some (co2_raw env j, ?s1\<lparr>co2_pos := Suc j\<rparr>)"
    using Suc.prems(2,3) lt by (intro Suc.hyps(1)) auto
  then show ?case using Suc.prems(4) by (simp add: GetCO2_loop_retry)
qed

text \<open>Partial correctness by fixpoint induction: whatever the loop returns is valid, is
  the value it started with or a reading it took, and only the CO2 cursor has moved.\<close>

lemma GetCO2_loop_result:
  assumes "GetCO2_loop env stat s = Some r"
  shows "co2_loop_post env stat s r"
proof (rule GetCO2_loop.raw_induct [where P = co2_loop_post, OF _ assms])
  fix f env stat s r
  assume IH: "\<And>env stat s r. f env stat s = Some r \<Longrightarrow> co2_loop_post env stat s r"
    and eq: "(if stat \<le> 0 \<or> 60000 \<le> stat
              then (case getCO2_Raw env s of (stat', s') \<Rightarrow> f env stat' s')
              else Some (stat, s)) = Some r"
  show "co2_loop_post env stat s r"
  proof (cases "co2_valid stat")
    case True
    with eq show ?thesis by (auto simp: co2_loop_post_def)
  next
    case False
    let ?s1 = "s\<lparr>co2_pos := Suc (co2_pos s)\<rparr>"
    from False eq have "f env (co2_raw env (co2_pos s)) ?s1 = Some r"
      by (simp add: getCO2_Raw_def)
    then have "co2_loop_post env (co2_raw env (co2_pos s)) ?s1 r" by (rule IH)
    then show ?thesis by (auto simp: co2_loop_post_def intro: Suc_leD)
  qed
qed

subsection \<open>Behaviour of \<open>GetCO2\<close>\<close>

lemma GetCO2_loop_hangs:
  assumes "\<not> co2_valid stat" "\<forall>k \<ge> co2_pos s. \<not> co2_valid (co2_raw env k)"
  shows "GetCO2_loop env stat s = None"
proof (rule ccontr)
  assume "GetCO2_loop env stat s \<noteq> None"
  then obtain v s' where "GetCO2_loop env stat s = Some (v, s')" by auto
  then have "co2_loop_post env stat s (v, s')" by (rule GetCO2_loop_result)
  with assms show False by (auto simp: co2_loop_post_def)
qed

lemma GetCO2_unfold:
  "GetCO2 env s = GetCO2_loop env (co2_raw env (co2_pos s)) (s\<lparr>co2_pos := Suc (co2_pos s)\<rparr>)"
  by (simp add: GetCO2_def getCO2_Raw_def)

text \<open>
  C4 (functional, termination). When a valid reading lies ahead in the CO2 stream,
  \<open>GetCO2\<close> returns: it returns the first valid reading, having consumed every raw
  reading up to and including it, and changes nothing else.
\<close>

theorem GetCO2_first_valid:
  assumes "co2_pos s \<le> j" "co2_valid (co2_raw env j)"
    "\<forall>k. co2_pos s \<le> k \<and> k < j \<longrightarrow> \<not> co2_valid (co2_raw env k)"
  shows "GetCO2 env s = Some (co2_raw env j, s\<lparr>co2_pos := Suc j\<rparr>)"
proof (cases "j = co2_pos s")
  case True
  with assms(2) show ?thesis by (simp add: GetCO2_unfold GetCO2_loop_valid)
next
  case False
  with assms(1) have lt: "co2_pos s < j" by simp
  with assms(3) have inv: "\<not> co2_valid (co2_raw env (co2_pos s))" by simp
  have "GetCO2_loop env (co2_raw env (co2_pos s)) (s\<lparr>co2_pos := Suc (co2_pos s)\<rparr>) =
        Some (co2_raw env j, s\<lparr>co2_pos := Suc (co2_pos s)\<rparr>\<lparr>co2_pos := Suc j\<rparr>)"
    using lt assms(2,3) inv by (intro GetCO2_loop_first) auto
  then show ?thesis by (simp add: GetCO2_unfold)
qed

text \<open>
  C5 (error path). When no valid reading ever comes, \<open>GetCO2\<close> does not return: the
  retry loop spins for ever and stalls every caller (the display task and the metrics
  request), as spec section 7 accepts.
\<close>

theorem GetCO2_hangs:
  assumes "\<forall>k \<ge> co2_pos s. \<not> co2_valid (co2_raw env k)"
  shows "GetCO2 env s = None"
proof -
  from assms have "\<not> co2_valid (co2_raw env (co2_pos s))" by simp
  moreover from assms have "\<forall>k \<ge> co2_pos (s\<lparr>co2_pos := Suc (co2_pos s)\<rparr>). \<not> co2_valid (co2_raw env k)"
    by simp
  ultimately show ?thesis unfolding GetCO2_unfold by (rule GetCO2_loop_hangs)
qed

lemma GetCO2_returns_iff:
  "GetCO2 env s \<noteq> None \<longleftrightarrow> (\<exists>k \<ge> co2_pos s. co2_valid (co2_raw env k))"
proof
  assume ne: "GetCO2 env s \<noteq> None"
  show "\<exists>k \<ge> co2_pos s. co2_valid (co2_raw env k)"
  proof (rule ccontr)
    assume "\<not> (\<exists>k \<ge> co2_pos s. co2_valid (co2_raw env k))"
    then have "\<forall>k \<ge> co2_pos s. \<not> co2_valid (co2_raw env k)" by simp
    then have "GetCO2 env s = None" by (rule GetCO2_hangs)
    with ne show False by simp
  qed
next
  assume "\<exists>k \<ge> co2_pos s. co2_valid (co2_raw env k)"
  then obtain k where k: "co2_pos s \<le> k \<and> co2_valid (co2_raw env k)" by blast
  define j where "j = (LEAST k. co2_pos s \<le> k \<and> co2_valid (co2_raw env k))"
  from k have j: "co2_pos s \<le> j \<and> co2_valid (co2_raw env j)"
    unfolding j_def by (rule LeastI)
  have "\<forall>i. co2_pos s \<le> i \<and> i < j \<longrightarrow> \<not> co2_valid (co2_raw env i)"
  proof (intro allI impI)
    fix i assume i: "co2_pos s \<le> i \<and> i < j"
    then have "\<not> (co2_pos s \<le> i \<and> co2_valid (co2_raw env i))"
      unfolding j_def by (intro not_less_Least) simp
    with i show "\<not> co2_valid (co2_raw env i)" by simp
  qed
  with j have "GetCO2 env s = Some (co2_raw env j, s\<lparr>co2_pos := Suc j\<rparr>)"
    by (intro GetCO2_first_valid) auto
  then show "GetCO2 env s \<noteq> None" by simp
qed

lemma GetCO2_result:
  assumes "GetCO2 env s = Some (v, s')"
  shows "co2_valid v \<and> s' = s\<lparr>co2_pos := co2_pos s'\<rparr> \<and> co2_pos s < co2_pos s'"
proof -
  from assms have "co2_loop_post env (co2_raw env (co2_pos s)) (s\<lparr>co2_pos := Suc (co2_pos s)\<rparr>) (v, s')"
    unfolding GetCO2_unfold by (rule GetCO2_loop_result)
  then show ?thesis by (auto simp: co2_loop_post_def)
qed

lemma SetCurrentPM2_eq:
  "SetCurrentPM2 env s =
     (pm_raw env (pm_pos s),
      s\<lparr>pm_pos := Suc (pm_pos s),
        lastPM2 := (if 0 < pm_raw env (pm_pos s) then pm_raw env (pm_pos s) else lastPM2 s)\<rparr>)"
  by (simp add: SetCurrentPM2_def getPM2_Raw_def)

lemma GetCO2_first_valid_witness:
  "GetCO2 \<lparr>pm_raw = \<lambda>_. 12, co2_raw = \<lambda>k. if k < 3 then 0 else 415, sht_data = \<lambda>_. \<lparr>t = 21.5, rh = 45\<rparr>\<rparr> init_node =
   Some (415, init_node\<lparr>co2_pos := 4\<rparr>)"
  using GetCO2_first_valid [of init_node 3
      "\<lparr>pm_raw = \<lambda>_. 12, co2_raw = \<lambda>k. if k < 3 then 0 else 415, sht_data = \<lambda>_. \<lparr>t = 21.5, rh = 45\<rparr>\<rparr>"]
  by (simp add: init_node_def co2_valid_def)

lemma GetCO2_hangs_witness:
  "GetCO2 \<lparr>pm_raw = \<lambda>_. 12, co2_raw = \<lambda>_. 60000, sht_data = \<lambda>_. \<lparr>t = 21.5, rh = 45\<rparr>\<rparr> init_node = None"
  using GetCO2_hangs [of init_node "\<lparr>pm_raw = \<lambda>_. 12, co2_raw = \<lambda>_. 60000, sht_data = \<lambda>_. \<lparr>t = 21.5, rh = 45\<rparr>\<rparr>"]
  by (simp add: co2_valid_def)

end
