(* ===== verification/AG_Power.thy ===== *)
theory AG_Power
  imports AG_Sensors
begin

text \<open>
  The particulate sensor's duty cycle (\<open>src/main.cpp\<close>, \<open>WakupPM2\<close> and \<open>SleepPM2\<close>).
  \<open>WakupPM2\<close> runs from \<open>setup()\<close> and then every \<open>pmSensorOnPeriodMs\<close>: it wakes the
  sensor and arms a one-shot \<open>SleepPM2\<close> \<open>pmSensorOnForMs\<close> later. \<open>SleepPM2\<close> refreshes
  the cache with one raw reading (\<open>SetCurrentPM2\<close>) and puts the sensor to sleep when
  that reading is non-zero. Both return \<open>true\<close>, which keeps a recurring task armed.

  The code tests \<open>lastMesure != 0\<close>, while the cache is refreshed on \<open>stat > 0\<close> and the
  spec asks for sleep only after a positive reading: a negative raw reading puts the
  sensor to sleep without refreshing the cache, as the power-cycle theorem below shows
  for every raw reading.
\<close>

definition WakupPM2 :: "config \<Rightarrow> ms \<Rightarrow> node \<Rightarrow> bool \<times> node" where
  "WakupPM2 cfg now s = (True, timer_in now (pmSensorOnForMs cfg) H_SleepPM2 (wakeUp s))"

definition SleepPM2 :: "sensors \<Rightarrow> node \<Rightarrow> bool \<times> node" where
  "SleepPM2 env s =
     (case SetCurrentPM2 env s of (lastMesure, s1) \<Rightarrow> (True, if lastMesure \<noteq> 0 then sleep s1 else s1))"

subsection \<open>The two callbacks\<close>

lemma WakupPM2_eq:
  "WakupPM2 cfg now s =
     (True, s\<lparr>tasks := tasks s @ [\<lparr>tid = next_id s, handler = H_SleepPM2, target = now + pmSensorOnForMs cfg,
                                    period = pmSensorOnForMs cfg, repeat = False\<rparr>],
             next_id := Suc (next_id s), pm_power := AWAKE, hw_log := hw_log s @ [PMS_Wake]\<rparr>)"
  by (simp add: WakupPM2_def timer_in_def add_task_def wakeUp_def)

lemma SleepPM2_eq:
  "SleepPM2 env s =
     (True, let r = pm_raw env (pm_pos s);
                s1 = s\<lparr>pm_pos := Suc (pm_pos s), lastPM2 := (if 0 < r then r else lastPM2 s)\<rparr>
            in if r \<noteq> 0 then sleep s1 else s1)"
  by (simp add: SleepPM2_def SetCurrentPM2_eq Let_def)

lemma SleepPM2_sched [simp]:
  "tasks (snd (SleepPM2 env s)) = tasks s" "next_id (snd (SleepPM2 env s)) = next_id s"
  by (simp_all add: SleepPM2_eq Let_def sleep_def)

lemma SleepPM2_counter [simp]: "counter (snd (SleepPM2 env s)) = counter s"
  by (simp add: SleepPM2_eq Let_def sleep_def)

text \<open>
  C3 (functional, spec section 8). Starting from an awake sensor, the one-shot
  \<open>SleepPM2\<close> puts the sensor to sleep exactly when the raw reading it takes is
  non-zero, and caches that reading exactly when it is positive; otherwise the sensor
  stays awake and the previous cached value is kept. A negative reading therefore puts
  the sensor to sleep on a stale cache, where the spec keeps it awake.
\<close>

theorem SleepPM2_power_cycle:
  assumes "pm_power s = AWAKE"
  shows "pm_power (snd (SleepPM2 env s)) = (if pm_raw env (pm_pos s) \<noteq> 0 then ASLEEP else AWAKE) \<and>
         lastPM2 (snd (SleepPM2 env s)) =
           (if 0 < pm_raw env (pm_pos s) then pm_raw env (pm_pos s) else lastPM2 s) \<and>
         hw_log (snd (SleepPM2 env s)) = hw_log s @ (if pm_raw env (pm_pos s) \<noteq> 0 then [PMS_Sleep] else [])"
  using assms by (simp add: SleepPM2_eq Let_def sleep_def)

lemma SleepPM2_power_cycle_witness:
  "pm_power (snd (SleepPM2 \<lparr>pm_raw = \<lambda>_. 12, co2_raw = \<lambda>_. 415, sht_data = \<lambda>_. \<lparr>t = 21.5, rh = 45\<rparr>\<rparr> init_node)) = ASLEEP \<and>
   lastPM2 (snd (SleepPM2 \<lparr>pm_raw = \<lambda>_. 12, co2_raw = \<lambda>_. 415, sht_data = \<lambda>_. \<lparr>t = 21.5, rh = 45\<rparr>\<rparr> init_node)) = 12"
  using SleepPM2_power_cycle [of init_node "\<lparr>pm_raw = \<lambda>_. 12, co2_raw = \<lambda>_. 415, sht_data = \<lambda>_. \<lparr>t = 21.5, rh = 45\<rparr>\<rparr>"]
  by (simp add: init_node_def)

end
