(* ===== verification/AG_Display.thy ===== *)
theory AG_Display
  imports AG_Sensors
begin

text \<open>
  The status display (\<open>src/main.cpp\<close>, \<open>showTextRectangle\<close> and \<open>updateScreen\<close>).
  \<open>updateScreen\<close> runs every \<open>screenUpdateFrequencyMs\<close>. The global \<open>counter\<close> selects
  one of four phases: the cached PM2.5 value, a fresh CO2 reading (which may block in the
  retry loop), the temperature with one decimal, the humidity. A phase whose capability
  is disabled draws nothing. The counter then advances and wraps from 3 to 0. A frame is
  recorded as the two lines and the font flag passed to \<open>showTextRectangle\<close>; the
  pixel rendering is the display driver's.
\<close>

definition showTextRectangle :: "string \<Rightarrow> string \<Rightarrow> bool \<Rightarrow> node \<Rightarrow> node" where
  "showTextRectangle ln1 ln2 small s = s\<lparr>hw_log := hw_log s @ [Frame ln1 ln2 small]\<rparr>"

definition updateScreen :: "config \<Rightarrow> sensors \<Rightarrow> node \<Rightarrow> (bool \<times> node) option" where
  "updateScreen cfg env s =
     map_option (\<lambda>s1. let c = counter s1 + 1 in (True, s1\<lparr>counter := (if 3 < c then 0 else c)\<rparr>))
       (if counter s = 0 then
          Some (if hasPM cfg then showTextRectangle ''PM2'' (String_int (GetPM2 s)) False s else s)
        else if counter s = 1 then
          (if hasCO2 cfg
           then map_option (\<lambda>(stat, s1). showTextRectangle ''CO2'' (String_int stat) False s1) (GetCO2 env s)
           else Some s)
        else if counter s = 2 then
          Some (if hasSHT cfg
                then (case periodicFetchData env s of (stat, s1) \<Rightarrow>
                        showTextRectangle ''TMP'' (String_float 1 (t stat) @ ''C'') False s1)
                else s)
        else if counter s = 3 then
          Some (if hasSHT cfg
                then (case periodicFetchData env s of (stat, s1) \<Rightarrow>
                        showTextRectangle ''HUM'' (String_int (rh stat) @ ''%'') False s1)
                else s)
        else Some s)"

text \<open>Which phases draw a frame, and with which title.\<close>

definition phase_enabled :: "config \<Rightarrow> c_int \<Rightarrow> bool" where
  "phase_enabled cfg c \<longleftrightarrow>
     (c = 0 \<and> hasPM cfg) \<or> (c = 1 \<and> hasCO2 cfg) \<or> ((c = 2 \<or> c = 3) \<and> hasSHT cfg)"

definition phase_title :: "c_int \<Rightarrow> string" where
  "phase_title c = (if c = 0 then ''PM2'' else if c = 1 then ''CO2'' else if c = 2 then ''TMP'' else ''HUM'')"

definition frame_title :: "hw_event \<Rightarrow> string option" where
  "frame_title e = (case e of Frame l1 l2 b \<Rightarrow> Some l1 | _ \<Rightarrow> None)"

subsection \<open>One display update\<close>

lemma GetCO2_keeps:
  assumes "GetCO2 env s = Some (v, s1)"
  shows "tasks s1 = tasks s \<and> next_id s1 = next_id s \<and> counter s1 = counter s \<and>
         lastPM2 s1 = lastPM2 s \<and> pm_power s1 = pm_power s \<and> hw_log s1 = hw_log s \<and>
         pm_pos s1 = pm_pos s \<and> sht_pos s1 = sht_pos s"
proof -
  from GetCO2_result [OF assms] obtain p where "s1 = s\<lparr>co2_pos := p\<rparr>" by blast
  then show ?thesis by simp
qed

lemma updateScreen_None_iff:
  "updateScreen cfg env s = None \<longleftrightarrow>
     counter s = 1 \<and> hasCO2 cfg \<and> (\<forall>k \<ge> co2_pos s. \<not> co2_valid (co2_raw env k))"
proof -
  have "GetCO2 env s = None \<longleftrightarrow> (\<forall>k \<ge> co2_pos s. \<not> co2_valid (co2_raw env k))"
    using GetCO2_returns_iff [of env s] by auto
  then show ?thesis by (auto simp: updateScreen_def)
qed

lemma updateScreen_phase0:
  "counter s = 0 \<Longrightarrow> updateScreen cfg env s =
     Some (True, (if hasPM cfg then showTextRectangle ''PM2'' (String_int (lastPM2 s)) False s else s)\<lparr>counter := 1\<rparr>)"
  by (simp add: updateScreen_def GetPM2_def showTextRectangle_def)

lemma updateScreen_phase1:
  "counter s = 1 \<Longrightarrow> updateScreen cfg env s =
     (if hasCO2 cfg
      then map_option (\<lambda>(v, s1). (True, (showTextRectangle ''CO2'' (String_int v) False s1)\<lparr>counter := 2\<rparr>)) (GetCO2 env s)
      else Some (True, s\<lparr>counter := 2\<rparr>))"
proof (cases "GetCO2 env s")
  case None
  then show "counter s = 1 \<Longrightarrow> ?thesis" by (simp add: updateScreen_def)
next
  case (Some r)
  obtain v s1 where r: "r = (v, s1)" by (cases r)
  with Some have "counter s1 = counter s" by (simp add: GetCO2_keeps)
  with Some r show "counter s = 1 \<Longrightarrow> ?thesis" by (simp add: updateScreen_def showTextRectangle_def)
qed

lemma updateScreen_phase2:
  "counter s = 2 \<Longrightarrow> updateScreen cfg env s =
     Some (True, (if hasSHT cfg
                  then showTextRectangle ''TMP'' (String_float 1 (t (sht_data env (sht_pos s))) @ ''C'') False
                         (s\<lparr>sht_pos := Suc (sht_pos s)\<rparr>)
                  else s)\<lparr>counter := 3\<rparr>)"
  by (simp add: updateScreen_def periodicFetchData_def showTextRectangle_def)

lemma updateScreen_phase3:
  "counter s = 3 \<Longrightarrow> updateScreen cfg env s =
     Some (True, (if hasSHT cfg
                  then showTextRectangle ''HUM'' (String_int (rh (sht_data env (sht_pos s))) @ ''%'') False
                         (s\<lparr>sht_pos := Suc (sht_pos s)\<rparr>)
                  else s)\<lparr>counter := 0\<rparr>)"
  by (simp add: updateScreen_def periodicFetchData_def showTextRectangle_def)

text \<open>
  C6 (functional, spec section 8). From a phase in \<open>[0, 3]\<close>, a display update that
  returns keeps its task armed, advances the phase modulo 4, draws exactly one frame with
  the phase's title when the phase's capability is enabled and none otherwise, and leaves
  the timer, the power state and the particulate cache alone.
\<close>

theorem updateScreen_rotation:
  assumes "0 \<le> counter s" "counter s \<le> 3" "updateScreen cfg env s = Some (keep, s')"
  shows "keep \<and> counter s' = (counter s + 1) mod 4 \<and>
         tasks s' = tasks s \<and> next_id s' = next_id s \<and> pm_power s' = pm_power s \<and> lastPM2 s' = lastPM2 s \<and>
         (\<exists>fr. hw_log s' = hw_log s @ fr \<and>
               map frame_title fr = (if phase_enabled cfg (counter s) then [Some (phase_title (counter s))] else []))"
proof -
  have "counter s = 0 \<or> counter s = 1 \<or> counter s = 2 \<or> counter s = 3" using assms(1,2) by arith
  then show ?thesis
  proof (elim disjE)
    assume c: "counter s = 0"
    with assms(3) show ?thesis
      by (auto simp: updateScreen_phase0 showTextRectangle_def phase_enabled_def phase_title_def frame_title_def)
  next
    assume c: "counter s = 1"
    show ?thesis
    proof (cases "hasCO2 cfg")
      case True
      with c assms(3) obtain v s1 where g: "GetCO2 env s = Some (v, s1)"
        and s': "s' = (showTextRectangle ''CO2'' (String_int v) False s1)\<lparr>counter := 2\<rparr>" and k: keep
        by (auto simp: updateScreen_phase1)
      from GetCO2_keeps [OF g] c True k s' show ?thesis
        by (auto simp: showTextRectangle_def phase_enabled_def phase_title_def frame_title_def)
    next
      case False
      with c assms(3) show ?thesis
        by (auto simp: updateScreen_phase1 phase_enabled_def)
    qed
  next
    assume c: "counter s = 2"
    with assms(3) show ?thesis
      by (auto simp: updateScreen_phase2 showTextRectangle_def phase_enabled_def phase_title_def frame_title_def)
  next
    assume c: "counter s = 3"
    with assms(3) show ?thesis
      by (auto simp: updateScreen_phase3 showTextRectangle_def phase_enabled_def phase_title_def frame_title_def)
  qed
qed

lemma updateScreen_rotation_witness:
  "counter (snd (the (updateScreen main_config \<lparr>pm_raw = \<lambda>_. 12, co2_raw = \<lambda>_. 415, sht_data = \<lambda>_. \<lparr>t = 21.5, rh = 45\<rparr>\<rparr> init_node))) = 1 \<and>
   hw_log (snd (the (updateScreen main_config \<lparr>pm_raw = \<lambda>_. 12, co2_raw = \<lambda>_. 415, sht_data = \<lambda>_. \<lparr>t = 21.5, rh = 45\<rparr>\<rparr> init_node))) =
     [Frame ''PM2'' ''0'' False]"
proof -
  let ?env = "\<lparr>pm_raw = \<lambda>_. 12, co2_raw = \<lambda>_. 415, sht_data = \<lambda>_. \<lparr>t = 21.5, rh = 45\<rparr>\<rparr>"
  let ?s' = "snd (the (updateScreen main_config ?env init_node))"
  have run: "updateScreen main_config ?env init_node = Some (True, ?s')"
    by (simp add: updateScreen_phase0 init_node_def)
  have "counter ?s' = (counter init_node + 1) mod 4"
    using updateScreen_rotation [OF _ _ run] by (simp add: init_node_def)
  moreover have "hw_log ?s' = [Frame ''PM2'' ''0'' False]"
    using run by (simp add: updateScreen_phase0 init_node_def main_config_def showTextRectangle_def
        String_int_def utoa.simps digit_char_def)
  ultimately show ?thesis by (simp add: init_node_def)
qed

end
