(* ===== verification/AG_Node.thy ===== *)
theory AG_Node
  imports AG_Power AG_Display
begin

text \<open>
  The callbacks put together with the timer. \<open>run_handler\<close> is the call the timer makes
  through the function pointer it was given (\<open>timer.every(..., WakupPM2)\<close>,
  \<open>timer.in(..., SleepPM2)\<close>, \<open>timer.every(..., updateScreen)\<close>), and \<open>node_tick\<close> is
  \<open>timer.tick()\<close> on the sketch's state. The lemma \<open>runner_ok_run_handler\<close> discharges the
  scheduler's contract for these callbacks, so the scheduler theorems of \<open>AG_Timer\<close>
  apply to the sketch: due tasks fire in registration order, and after a tick nothing is
  due any more.
\<close>

fun run_handler :: "config \<Rightarrow> sensors \<Rightarrow> handler \<Rightarrow> ms \<Rightarrow> node \<Rightarrow> (bool \<times> node) option" where
  "run_handler cfg env H_WakupPM2 now s = Some (WakupPM2 cfg now s)"
| "run_handler cfg env H_SleepPM2 now s = Some (SleepPM2 env s)"
| "run_handler cfg env H_updateScreen now s = updateScreen cfg env s"

definition node_tick :: "config \<Rightarrow> sensors \<Rightarrow> ms \<Rightarrow> node \<Rightarrow> (nat list \<times> node) option" where
  "node_tick cfg env now s = tick (run_handler cfg env) now s"

subsection \<open>The callbacks meet the scheduler's contract\<close>

lemma updateScreen_sched:
  assumes "updateScreen cfg env s = Some (keep, s')"
  shows "keep \<and> tasks s' = tasks s \<and> next_id s' = next_id s \<and>
         counter s' = (if 3 < counter s + 1 then 0 else counter s + 1) \<and>
         lastPM2 s' = lastPM2 s \<and> pm_power s' = pm_power s"
proof -
  have "counter s = 1 \<and> hasCO2 cfg \<or> \<not> (counter s = 1 \<and> hasCO2 cfg)" by blast
  then show ?thesis
  proof
    assume c: "counter s = 1 \<and> hasCO2 cfg"
    with assms obtain v s1 where "GetCO2 env s = Some (v, s1)"
      and "s' = (showTextRectangle ''CO2'' (String_int v) False s1)\<lparr>counter := 2\<rparr>" and keep
      by (auto simp: updateScreen_phase1)
    with c show ?thesis by (simp add: GetCO2_keeps showTextRectangle_def)
  next
    assume "\<not> (counter s = 1 \<and> hasCO2 cfg)"
    with assms show ?thesis
      by (auto simp: updateScreen_def showTextRectangle_def periodicFetchData_def Let_def
          split: if_splits prod.splits)
  qed
qed

lemma appends_tasks_same [simp]:
  "tasks s' = tasks s \<Longrightarrow> next_id s' = next_id s \<Longrightarrow> appends_tasks now s s'"
  by (simp add: appends_tasks_def fresh_tasks_def)

lemma runner_ok_run_handler [wf_rules]:
  assumes "0 < pmSensorOnForMs cfg"
  shows "runner_ok (run_handler cfg env)"
  unfolding runner_ok_def
proof (intro allI impI)
  fix h now s r assume run: "run_handler cfg env h now s = Some r"
  show "appends_tasks now s (snd r)"
  proof (cases h)
    case H_WakupPM2
    with run assms show ?thesis
      by (auto simp: WakupPM2_eq appends_tasks_def fresh_tasks_def)
  next
    case H_SleepPM2
    with run show ?thesis by auto
  next
    case H_updateScreen
    with run show ?thesis by (cases r) (auto dest: updateScreen_sched)
  qed
qed

subsection \<open>The sketch's timer\<close>

text \<open>
  C1 (safety, spec section 4.1). One \<open>timer.tick()\<close> of the sketch fires exactly the
  tasks that are due, each once, in the order they were registered (FIFO among tasks due
  at the same time), whatever the callbacks do to the table while it runs.
\<close>

theorem node_tick_fifo:
  assumes "0 < pmSensorOnForMs cfg" "sched_wf s" "node_tick cfg env now s = Some (fs, s')"
  shows "fs = map tid (filter (due now) (tasks s)) \<and> sorted_wrt (<) fs"
proof -
  have fs: "fs = map tid (filter (due now) (tasks s))"
    using tick_fired [OF runner_ok_run_handler [OF assms(1)] assms(2)] assms(3)
    by (simp add: node_tick_def)
  have "sorted_wrt (<) (map tid (tasks s))" using assms(2) by (simp add: sched_wf_def)
  then have "sorted_wrt (<) (map tid (filter (due now) (tasks s)))"
    by (simp add: sorted_wrt_map sorted_wrt_filter)
  with fs show ?thesis by simp
qed

text \<open>
  C2 (safety, spec section 4.1). After a tick the task table is still well formed and
  no task is due at the tick's time: calling \<open>timer.tick()\<close> again at the same time
  fires nothing. A recurring task that was late fires once, not once per missed period.
\<close>

theorem node_tick_no_storm:
  assumes "0 < pmSensorOnForMs cfg" "sched_wf s" "node_tick cfg env now s = Some (fs, s')"
  shows "sched_wf s' \<and> node_tick cfg env now s' = Some ([], s')"
proof -
  have "sched_wf s' \<and> (\<forall>u \<in> set (tasks s'). \<not> due now u)"
    using tick_settles [OF runner_ok_run_handler [OF assms(1)] assms(2)] assms(3)
    by (simp add: node_tick_def)
  then show ?thesis by (simp add: node_tick_def tick_idle)
qed

lemma node_tick_fifo_witness:
  "\<exists>s'. node_tick main_config \<lparr>pm_raw = \<lambda>_. 12, co2_raw = \<lambda>_. 415, sht_data = \<lambda>_. \<lparr>t = 21.5, rh = 45\<rparr>\<rparr> 5000
     (timer_every 0 5000 H_updateScreen (timer_every 0 120000 H_WakupPM2 init_node)) = Some ([1], s')"
proof -
  let ?env = "\<lparr>pm_raw = \<lambda>_. 12, co2_raw = \<lambda>_. 415, sht_data = \<lambda>_. \<lparr>t = 21.5, rh = 45\<rparr>\<rparr>"
  let ?s = "timer_every 0 5000 H_updateScreen (timer_every 0 120000 H_WakupPM2 init_node)"
  have "node_tick main_config ?env 5000 ?s \<noteq> None"
    by (simp add: node_tick_def tick_def timer_every_def add_task_def init_node_def lookup_task_def due_def
        fire_def updateScreen_phase0 update_task_def main_config_def)
  then obtain fs s' where run: "node_tick main_config ?env 5000 ?s = Some (fs, s')" by auto
  have wf: "sched_wf ?s" by (simp add: sched_wf_def timer_every_def add_task_def init_node_def)
  have "0 < pmSensorOnForMs main_config" by (simp add: main_config_def)
  from node_tick_fifo [OF this wf run] have "fs = [1]"
    by (simp add: timer_every_def add_task_def init_node_def due_def)
  with run show ?thesis by blast
qed

lemma node_tick_no_storm_witness:
  "\<exists>fs s'. node_tick main_config \<lparr>pm_raw = \<lambda>_. 12, co2_raw = \<lambda>_. 415, sht_data = \<lambda>_. \<lparr>t = 21.5, rh = 45\<rparr>\<rparr> 5000
     (timer_every 0 5000 H_updateScreen (timer_every 0 120000 H_WakupPM2 init_node)) = Some (fs, s') \<and>
     node_tick main_config \<lparr>pm_raw = \<lambda>_. 12, co2_raw = \<lambda>_. 415, sht_data = \<lambda>_. \<lparr>t = 21.5, rh = 45\<rparr>\<rparr> 5000 s' = Some ([], s')"
proof -
  let ?env = "\<lparr>pm_raw = \<lambda>_. 12, co2_raw = \<lambda>_. 415, sht_data = \<lambda>_. \<lparr>t = 21.5, rh = 45\<rparr>\<rparr>"
  let ?s = "timer_every 0 5000 H_updateScreen (timer_every 0 120000 H_WakupPM2 init_node)"
  have "node_tick main_config ?env 5000 ?s \<noteq> None"
    by (simp add: node_tick_def tick_def timer_every_def add_task_def init_node_def lookup_task_def due_def
        fire_def updateScreen_phase0 update_task_def main_config_def)
  then obtain fs s' where run: "node_tick main_config ?env 5000 ?s = Some (fs, s')" by auto
  have wf: "sched_wf ?s" by (simp add: sched_wf_def timer_every_def add_task_def init_node_def)
  have pos: "0 < pmSensorOnForMs main_config" by (simp add: main_config_def)
  from node_tick_no_storm [OF pos wf run] have "node_tick main_config ?env 5000 s' = Some ([], s')"
    by blast
  with run show ?thesis by blast
qed

end
