(* ===== verification/AG_Metrics.thy ===== *)
theory AG_Metrics
  imports AG_Sensors
begin

text \<open>
  The Prometheus exposition text. \<open>GenerateMetrics\<close> (\<open>src/main.cpp\<close>) builds it while
  reading the sensors: the cached PM2.5 value, a fresh CO2 reading (through the blocking
  retry loop), a fresh temperature/humidity pair. \<open>Server_generateMetrics\<close>
  (\<open>src/Prometheus/Server.cpp\<close>, \<open>_generateMetrics\<close>) builds the same text from a
  snapshot of cached readings (\<open>MetricsData\<close>, the result of \<open>Metrics::Gatherer::getData\<close>,
  whose class is outside \<open>src/\<close>: PM2, CO2 and humidity are \<open>int\<close>s as in \<open>TMP_RH\<close>, the
  temperature a \<open>float\<close>). Its \<open>#ifdef HAS_PM\<close>, \<open>HAS_CO2\<close>, \<open>HAS_SHT\<close> switches are the
  configuration's capability flags.

  The reference specification (spec section 4.5) is \<open>metrics_spec\<close>: one three-line
  block (HELP, TYPE, sample) per enabled series, in the fixed order pm02, rco2, atmp,
  rhum. A scraper's view is \<open>samples\<close>: the sample lines of the text, split into metric
  name and value.
\<close>

abbreviation NL :: string where
  "NL \<equiv> [CHR 0x0A]"

record MetricsData =
  PM2 :: c_int
  CO2 :: c_int
  TMP :: real
  HUM :: c_int

definition idString :: "string \<Rightarrow> string \<Rightarrow> string" where
  \<open>idString did mac = ''{id="'' @ did @ ''",mac="'' @ mac @ ''"}''\<close>

definition GenerateMetrics :: "config \<Rightarrow> sensors \<Rightarrow> string \<Rightarrow> node \<Rightarrow> (string \<times> node) option" where
  \<open>GenerateMetrics cfg env mac s =
     (let idS = idString (deviceId cfg) mac;
          m1 = (if hasPM cfg
                then ''# HELP pm02 Particulate Matter PM2.5 value'' @ NL @ ''# TYPE pm02 gauge'' @ NL @
                     ''pm02'' @ idS @ String_int (GetPM2 s) @ NL
                else '''')
      in Option.bind
           (if hasCO2 cfg
            then map_option (\<lambda>(stat, s1).
                   (m1 @ ''# HELP rco2 CO2 value, in ppm'' @ NL @ ''# TYPE rco2 gauge'' @ NL @
                    ''rco2'' @ idS @ String_int stat @ NL, s1)) (GetCO2 env s)
            else Some (m1, s))
           (\<lambda>(m2, s2).
              Some (if hasSHT cfg
                    then (case periodicFetchData env s2 of (stat, s3) \<Rightarrow>
                      (m2 @ ''# HELP atmp Temperature, in degrees Celsius'' @ NL @ ''# TYPE atmp gauge'' @ NL @
                       ''atmp'' @ idS @ String_float 2 (t stat) @ NL @
                       ''# HELP rhum Relative humidity, in percent'' @ NL @ ''# TYPE rhum gauge'' @ NL @
                       ''rhum'' @ idS @ String_int (rh stat) @ NL, s3))
                    else (m2, s2))))\<close>

definition Server_generateMetrics :: "config \<Rightarrow> string \<Rightarrow> MetricsData \<Rightarrow> string" where
  \<open>Server_generateMetrics cfg mac metrics =
     (let idS = idString (deviceId cfg) mac
      in (if hasPM cfg
          then ''# HELP pm02 Particulate Matter PM2.5 value'' @ NL @ ''# TYPE pm02 gauge'' @ NL @
               ''pm02'' @ idS @ String_int (PM2 metrics) @ NL
          else '''') @
         (if hasCO2 cfg
          then ''# HELP rco2 CO2 value, in ppm'' @ NL @ ''# TYPE rco2 gauge'' @ NL @
               ''rco2'' @ idS @ String_int (CO2 metrics) @ NL
          else '''') @
         (if hasSHT cfg
          then ''# HELP atmp Temperature, in degrees Celsius'' @ NL @ ''# TYPE atmp gauge'' @ NL @
               ''atmp'' @ idS @ String_float 2 (TMP metrics) @ NL @
               ''# HELP rhum Relative humidity, in percent'' @ NL @ ''# TYPE rhum gauge'' @ NL @
               ''rhum'' @ idS @ String_int (HUM metrics) @ NL
          else ''''))\<close>

subsection \<open>The reference specification\<close>

definition metric_block :: "string \<Rightarrow> string \<Rightarrow> string \<Rightarrow> string \<Rightarrow> string" where
  "metric_block name help idS v =
     ''# HELP '' @ name @ '' '' @ help @ NL @ ''# TYPE '' @ name @ '' gauge'' @ NL @ name @ idS @ v @ NL"

text \<open>The enabled series in export order: name, help text, printed value.\<close>

definition series :: "config \<Rightarrow> MetricsData \<Rightarrow> (string \<times> string \<times> string) list" where
  "series cfg d =
     (if hasPM cfg then [(''pm02'', ''Particulate Matter PM2.5 value'', String_int (PM2 d))] else []) @
     (if hasCO2 cfg then [(''rco2'', ''CO2 value, in ppm'', String_int (CO2 d))] else []) @
     (if hasSHT cfg then [(''atmp'', ''Temperature, in degrees Celsius'', String_float 2 (TMP d)),
                          (''rhum'', ''Relative humidity, in percent'', String_int (HUM d))] else [])"

definition metrics_spec :: "config \<Rightarrow> string \<Rightarrow> MetricsData \<Rightarrow> string" where
  "metrics_spec cfg mac d =
     concat (map (\<lambda>(name, help, v). metric_block name help (idString (deviceId cfg) mac) v) (series cfg d))"

text \<open>The readings \<open>GenerateMetrics\<close> takes, in the order it takes them, as a snapshot.\<close>

definition gather :: "config \<Rightarrow> sensors \<Rightarrow> node \<Rightarrow> (MetricsData \<times> node) option" where
  "gather cfg env s =
     Option.bind (if hasCO2 cfg then GetCO2 env s else Some (0, s))
       (\<lambda>(c, s2). Some (if hasSHT cfg
                        then (case periodicFetchData env s2 of (th, s3) \<Rightarrow>
                                (\<lparr>PM2 = GetPM2 s, CO2 = c, TMP = t th, HUM = rh th\<rparr>, s3))
                        else (\<lparr>PM2 = GetPM2 s, CO2 = c, TMP = 0, HUM = 0\<rparr>, s2)))"

subsection \<open>A scraper's view\<close>

fun lines_acc :: "string \<Rightarrow> string \<Rightarrow> string list" where
  "lines_acc cur [] = (if cur = [] then [] else [rev cur])"
| "lines_acc cur (c # cs) = (if c = CHR 0x0A then rev cur # lines_acc [] cs else lines_acc (c # cur) cs)"

definition split_lines :: "string \<Rightarrow> string list" where
  "split_lines s = lines_acc [] s"

definition sample_of :: "string \<Rightarrow> string \<times> string" where
  "sample_of l = (takeWhile (\<lambda>c. c \<noteq> CHR ''{'') l, drop 1 (dropWhile (\<lambda>c. c \<noteq> CHR ''}'') l))"

definition samples :: "string \<Rightarrow> (string \<times> string) list" where
  "samples doc = map sample_of (filter (\<lambda>l. l \<noteq> [] \<and> hd l \<noteq> CHR ''#'') (split_lines doc))"

text \<open>A text is one line when it holds no line break.\<close>

definition one_line :: "string \<Rightarrow> bool" where
  "one_line s \<longleftrightarrow> CHR 0x0A \<notin> set s"

subsection \<open>The exporter meets the reference\<close>

lemma metric_block_pm02:
  "metric_block ''pm02'' ''Particulate Matter PM2.5 value'' idS v =
   ''# HELP pm02 Particulate Matter PM2.5 value'' @ NL @ ''# TYPE pm02 gauge'' @ NL @ ''pm02'' @ idS @ v @ NL"
  by (simp add: metric_block_def)

lemma metric_block_rco2:
  "metric_block ''rco2'' ''CO2 value, in ppm'' idS v =
   ''# HELP rco2 CO2 value, in ppm'' @ NL @ ''# TYPE rco2 gauge'' @ NL @ ''rco2'' @ idS @ v @ NL"
  by (simp add: metric_block_def)

lemma metric_block_atmp:
  "metric_block ''atmp'' ''Temperature, in degrees Celsius'' idS v =
   ''# HELP atmp Temperature, in degrees Celsius'' @ NL @ ''# TYPE atmp gauge'' @ NL @ ''atmp'' @ idS @ v @ NL"
  by (simp add: metric_block_def)

lemma metric_block_rhum:
  "metric_block ''rhum'' ''Relative humidity, in percent'' idS v =
   ''# HELP rhum Relative humidity, in percent'' @ NL @ ''# TYPE rhum gauge'' @ NL @ ''rhum'' @ idS @ v @ NL"
  by (simp add: metric_block_def)

lemmas metric_blocks = metric_block_pm02 metric_block_rco2 metric_block_atmp metric_block_rhum

text \<open>
  C7 (equivalence, spec section 4.5). The refactored exporter produces exactly the
  reference document: one HELP/TYPE/sample block per enabled series, in the order
  pm02, rco2, atmp, rhum, and nothing for a disabled capability.
\<close>

theorem Server_generateMetrics_spec:
  "Server_generateMetrics cfg mac d = metrics_spec cfg mac d"
  by (simp add: Server_generateMetrics_def metrics_spec_def series_def metric_blocks Let_def)

subsection \<open>Lines and samples of the document\<close>

lemma lines_acc_line:
  "CHR 0x0A \<notin> set l \<Longrightarrow> lines_acc cur (l @ CHR 0x0A # rest) = (rev cur @ l) # lines_acc [] rest"
  by (induction l arbitrary: cur) auto

lemma split_lines_line:
  "CHR 0x0A \<notin> set l \<Longrightarrow> split_lines (l @ NL @ rest) = l # split_lines rest"
  by (simp add: split_lines_def lines_acc_line)

lemma split_lines_Nil [simp]: "split_lines [] = []"
  by (simp add: split_lines_def)

lemma split_lines_block:
  assumes "one_line name" "one_line help" "one_line idS" "one_line v"
  shows "split_lines (metric_block name help idS v @ rest) =
           (''# HELP '' @ name @ '' '' @ help) # (''# TYPE '' @ name @ '' gauge'') # (name @ idS @ v) #
           split_lines rest"
  using assms by (simp add: metric_block_def one_line_def split_lines_line [symmetric])

lemma split_lines_concat_blocks:
  assumes "\<forall>(n, h, v) \<in> set xs. one_line n \<and> one_line h \<and> one_line idS \<and> one_line v"
  shows "split_lines (concat (map (\<lambda>(n, h, v). metric_block n h idS v) xs)) =
           concat (map (\<lambda>(n, h, v). [''# HELP '' @ n @ '' '' @ h, ''# TYPE '' @ n @ '' gauge'', n @ idS @ v]) xs)"
  using assms by (induction xs) (auto simp: split_lines_block)

lemma sample_of_line:
  assumes "CHR ''{'' \<notin> set n" "CHR ''}'' \<notin> set n" "CHR ''}'' \<notin> set did" "CHR ''}'' \<notin> set mac"
  shows "sample_of (n @ idString did mac @ v) = (n, v)"
proof -
  have "takeWhile (\<lambda>c. c \<noteq> CHR ''{'') (n @ idString did mac @ v) = n"
    using assms(1) by (simp add: idString_def)
  moreover have "dropWhile (\<lambda>c. c \<noteq> CHR ''}'') (n @ idString did mac @ v) = CHR ''}'' # v"
    using assms(2-4) by (simp add: idString_def)
  ultimately show ?thesis by (simp add: sample_of_def)
qed

lemma samples_blocks:
  assumes "\<forall>(n, h, v) \<in> set xs. n \<noteq> [] \<and> hd n \<noteq> CHR ''#'' \<and> CHR ''{'' \<notin> set n \<and> CHR ''}'' \<notin> set n"
    "CHR ''}'' \<notin> set did" "CHR ''}'' \<notin> set mac"
  shows "map sample_of (filter (\<lambda>l. l \<noteq> [] \<and> hd l \<noteq> CHR ''#'')
           (concat (map (\<lambda>(n, h, v). [''# HELP '' @ n @ '' '' @ h, ''# TYPE '' @ n @ '' gauge'',
                                      n @ idString did mac @ v]) xs))) =
         map (\<lambda>(n, h, v). (n, v)) xs"
  using assms by (induction xs) (auto simp: sample_of_line)

lemma series_shape:
  "(n, h, v) \<in> set (series cfg d) \<Longrightarrow>
     n \<noteq> [] \<and> hd n \<noteq> CHR ''#'' \<and> CHR ''{'' \<notin> set n \<and> CHR ''}'' \<notin> set n \<and>
     one_line n \<and> one_line h \<and> one_line v"
  by (auto simp: series_def one_line_def split: if_splits)

lemma Server_generateMetrics_blocks:
  "Server_generateMetrics cfg mac d = metrics_spec cfg mac d"
  by (simp add: Server_generateMetrics_def metrics_spec_def series_def metric_blocks Let_def)

lemma samples_Server_generateMetrics:
  assumes "CHR ''}'' \<notin> set (deviceId cfg)" "CHR ''}'' \<notin> set mac"
    "one_line (deviceId cfg)" "one_line mac"
  shows "samples (Server_generateMetrics cfg mac d) = map (\<lambda>(n, h, v). (n, v)) (series cfg d)"
proof -
  let ?idS = "idString (deviceId cfg) mac"
  have idS: "one_line ?idS" using assms(3,4) by (simp add: one_line_def idString_def)
  let ?P = "\<lambda>l. l \<noteq> [] \<and> hd l \<noteq> CHR ''#''"
  have split: "split_lines (metrics_spec cfg mac d) =
          concat (map (\<lambda>(n, h, v). [''# HELP '' @ n @ '' '' @ h, ''# TYPE '' @ n @ '' gauge'', n @ ?idS @ v])
                  (series cfg d))"
    unfolding metrics_spec_def using idS by (intro split_lines_concat_blocks) (auto dest: series_shape)
  have "samples (Server_generateMetrics cfg mac d) = map sample_of (filter ?P (split_lines (metrics_spec cfg mac d)))"
    unfolding samples_def Server_generateMetrics_blocks ..
  also have "\<dots> = map sample_of (filter ?P
          (concat (map (\<lambda>(n, h, v). [''# HELP '' @ n @ '' '' @ h, ''# TYPE '' @ n @ '' gauge'', n @ ?idS @ v])
                  (series cfg d))))"
    unfolding split ..
  also have "\<dots> = map (\<lambda>(n, h, v). (n, v)) (series cfg d)"
    using assms(1,2) by (intro samples_blocks) (auto dest: series_shape)
  finally show ?thesis .
qed

text \<open>
  C8 (round trip, spec section 4.5). A scraper that splits the exported text into lines
  and reads the sample lines recovers every integer series exactly: PM2.5, CO2 and
  humidity, in export order, for any device id and MAC address free of \<open>}\<close> and line
  breaks.
\<close>

theorem metrics_scrape_roundtrip:
  assumes "CHR ''}'' \<notin> set (deviceId cfg)" "CHR ''}'' \<notin> set mac"
    "CHR 0x0A \<notin> set (deviceId cfg)" "CHR 0x0A \<notin> set mac"
  shows "map (\<lambda>(n, v). (n, parse_int v)) (filter (\<lambda>(n, v). n \<noteq> ''atmp'') (samples (Server_generateMetrics cfg mac d))) =
         (if hasPM cfg then [(''pm02'', Some (PM2 d))] else []) @
         (if hasCO2 cfg then [(''rco2'', Some (CO2 d))] else []) @
         (if hasSHT cfg then [(''rhum'', Some (HUM d))] else [])"
  using assms by (simp add: samples_Server_generateMetrics one_line_def series_def String_int_roundtrip)

text \<open>
  C9 (functional, spec section 8). Disabling the CO2 capability removes exactly the
  rco2 block from the exported text and changes nothing else.
\<close>

theorem metrics_disable_co2:
  assumes "hasCO2 cfg"
  shows "\<exists>A B. Server_generateMetrics cfg mac d =
                 A @ metric_block ''rco2'' ''CO2 value, in ppm'' (idString (deviceId cfg) mac) (String_int (CO2 d)) @ B \<and>
               Server_generateMetrics (cfg\<lparr>hasCO2 := False\<rparr>) mac d = A @ B"
proof (intro exI conjI)
  let ?idS = "idString (deviceId cfg) mac"
  let ?A = "if hasPM cfg then metric_block ''pm02'' ''Particulate Matter PM2.5 value'' ?idS (String_int (PM2 d)) else []"
  let ?B = "if hasSHT cfg then metric_block ''atmp'' ''Temperature, in degrees Celsius'' ?idS (String_float 2 (TMP d)) @
                               metric_block ''rhum'' ''Relative humidity, in percent'' ?idS (String_int (HUM d)) else []"
  show "Server_generateMetrics cfg mac d =
          ?A @ metric_block ''rco2'' ''CO2 value, in ppm'' ?idS (String_int (CO2 d)) @ ?B"
    using assms by (simp add: Server_generateMetrics_blocks metrics_spec_def series_def)
  show "Server_generateMetrics (cfg\<lparr>hasCO2 := False\<rparr>) mac d = ?A @ ?B"
    by (simp add: Server_generateMetrics_blocks metrics_spec_def series_def)
qed

lemma metrics_scrape_roundtrip_witness:
  "map (\<lambda>(n, v). (n, parse_int v))
     (filter (\<lambda>(n, v). n \<noteq> ''atmp'')
       (samples (Server_generateMetrics main_config ''AA:BB'' \<lparr>PM2 = 12, CO2 = 415, TMP = 21.5, HUM = 45\<rparr>))) =
   [(''pm02'', Some 12), (''rco2'', Some 415), (''rhum'', Some 45)]"
  using metrics_scrape_roundtrip [of main_config "''AA:BB''" "\<lparr>PM2 = 12, CO2 = 415, TMP = 21.5, HUM = 45\<rparr>"]
  by (simp add: main_config_def)

lemma metrics_disable_co2_witness:
  "\<exists>A B. Server_generateMetrics main_config ''AA:BB'' \<lparr>PM2 = 12, CO2 = 415, TMP = 21.5, HUM = 45\<rparr> =
          A @ metric_block ''rco2'' ''CO2 value, in ppm'' (idString '''' ''AA:BB'') ''415'' @ B \<and>
        Server_generateMetrics (main_config\<lparr>hasCO2 := False\<rparr>) ''AA:BB'' \<lparr>PM2 = 12, CO2 = 415, TMP = 21.5, HUM = 45\<rparr> = A @ B"
  using metrics_disable_co2 [of main_config "''AA:BB''" "\<lparr>PM2 = 12, CO2 = 415, TMP = 21.5, HUM = 45\<rparr>"]
  by (simp add: main_config_def String_int_def utoa.simps digit_char_def)

text \<open>The spec's example: all capabilities on, readings 12, 415, 21.5 and 45.\<close>

lemma Server_generateMetrics_example:
  \<open>Server_generateMetrics main_config ''AA:BB'' \<lparr>PM2 = 12, CO2 = 415, TMP = 21.5, HUM = 45\<rparr> =
   ''# HELP pm02 Particulate Matter PM2.5 value'' @ NL @ ''# TYPE pm02 gauge'' @ NL @
   ''pm02{id="",mac="AA:BB"}12'' @ NL @
   ''# HELP rco2 CO2 value, in ppm'' @ NL @ ''# TYPE rco2 gauge'' @ NL @
   ''rco2{id="",mac="AA:BB"}415'' @ NL @
   ''# HELP atmp Temperature, in degrees Celsius'' @ NL @ ''# TYPE atmp gauge'' @ NL @
   ''atmp{id="",mac="AA:BB"}21.50'' @ NL @
   ''# HELP rhum Relative humidity, in percent'' @ NL @ ''# TYPE rhum gauge'' @ NL @
   ''rhum{id="",mac="AA:BB"}45'' @ NL\<close>
  by (simp add: Server_generateMetrics_def main_config_def idString_def String_int_def String_float_def
      zero_pad_def utoa.simps digit_char_def)

subsection \<open>The sketch's exporter reads, then formats\<close>

lemma GenerateMetrics_gather:
  "GenerateMetrics cfg env mac s =
     map_option (\<lambda>(d, s'). (Server_generateMetrics cfg mac d, s')) (gather cfg env s)"
proof (cases "hasCO2 cfg")
  case True
  show ?thesis
  proof (cases "GetCO2 env s")
    case None
    with True show ?thesis by (simp add: GenerateMetrics_def gather_def)
  next
    case (Some r)
    with True show ?thesis
      by (cases r) (simp add: GenerateMetrics_def gather_def Server_generateMetrics_def Let_def
          periodicFetchData_def)
  qed
next
  case False
  then show ?thesis
    by (simp add: GenerateMetrics_def gather_def Server_generateMetrics_def Let_def periodicFetchData_def)
qed

lemma gather_None_iff:
  "gather cfg env s = None \<longleftrightarrow> hasCO2 cfg \<and> (\<forall>k \<ge> co2_pos s. \<not> co2_valid (co2_raw env k))"
proof -
  have "GetCO2 env s = None \<longleftrightarrow> (\<forall>k \<ge> co2_pos s. \<not> co2_valid (co2_raw env k))"
    using GetCO2_returns_iff [of env s] by auto
  then show ?thesis by (auto simp: gather_def bind_eq_None_conv split: prod.splits)
qed

lemma gather_PM2: "gather cfg env s = Some (d, s') \<Longrightarrow> PM2 d = lastPM2 s"
  by (auto simp: gather_def GetPM2_def bind_eq_Some_split split: if_splits prod.splits)

text \<open>
  C10 (refinement). The sketch's \<open>GenerateMetrics\<close> is the refactored exporter applied
  to the readings it takes: the cached PM2.5 value, then a CO2 reading through the retry
  loop, then one temperature/humidity reading. It answers a request exactly when the CO2
  capability is off or a valid CO2 reading lies ahead, and its text is then exactly
  \<open>Server_generateMetrics\<close> of that snapshot.
\<close>

theorem GenerateMetrics_refines:
  "GenerateMetrics cfg env mac s =
     map_option (\<lambda>(d, s'). (Server_generateMetrics cfg mac d, s')) (gather cfg env s) \<and>
   (GenerateMetrics cfg env mac s = None \<longleftrightarrow>
      hasCO2 cfg \<and> (\<forall>k \<ge> co2_pos s. \<not> co2_valid (co2_raw env k)))"
  by (simp add: GenerateMetrics_gather gather_None_iff)

lemma GenerateMetrics_refines_witness:
  "GenerateMetrics main_config \<lparr>pm_raw = \<lambda>_. 12, co2_raw = \<lambda>_. 60000, sht_data = \<lambda>_. \<lparr>t = 21.5, rh = 45\<rparr>\<rparr> ''AA:BB'' init_node = None"
  using conjunct2 [OF GenerateMetrics_refines [of main_config "\<lparr>pm_raw = \<lambda>_. 12, co2_raw = \<lambda>_. 60000, sht_data = \<lambda>_. \<lparr>t = 21.5, rh = 45\<rparr>\<rparr>"
      "''AA:BB''" init_node]]
  by (simp add: main_config_def co2_valid_def)

text \<open>
  C18 (divergence from the spec). Before the first positive particulate reading the
  cache holds 0, and the sketch exports it: the document opens with a pm02 block whose
  sample is 0, where the spec omits a metric with no reading.
\<close>

theorem GenerateMetrics_pm02_unread:
  assumes "hasPM cfg" "lastPM2 s = 0" "GenerateMetrics cfg env mac s = Some (m, s')"
  shows "\<exists>rest. m = metric_block ''pm02'' ''Particulate Matter PM2.5 value'' (idString (deviceId cfg) mac) ''0'' @ rest"
proof -
  from assms(3) obtain d where g: "gather cfg env s = Some (d, s')" and m: "m = Server_generateMetrics cfg mac d"
    by (auto simp: GenerateMetrics_gather)
  from gather_PM2 [OF g] assms(2) have "PM2 d = 0" by simp
  with m assms(1) show ?thesis
    by (simp add: Server_generateMetrics_def metric_block_def Let_def String_int_def utoa.simps digit_char_def)
qed

lemma GenerateMetrics_pm02_unread_witness:
  "\<exists>rest. fst (the (GenerateMetrics main_config \<lparr>pm_raw = \<lambda>_. 12, co2_raw = \<lambda>_. 415, sht_data = \<lambda>_. \<lparr>t = 21.5, rh = 45\<rparr>\<rparr> ''AA:BB'' init_node)) =
     metric_block ''pm02'' ''Particulate Matter PM2.5 value'' (idString '''' ''AA:BB'') ''0'' @ rest"
proof -
  let ?env = "\<lparr>pm_raw = \<lambda>_. 12, co2_raw = \<lambda>_. 415, sht_data = \<lambda>_. \<lparr>t = 21.5, rh = 45\<rparr>\<rparr>"
  have "GetCO2 ?env init_node = Some (415, init_node\<lparr>co2_pos := 1\<rparr>)"
    by (simp add: GetCO2_unfold GetCO2_loop_valid co2_valid_def init_node_def)
  then obtain m s' where g: "GenerateMetrics main_config ?env ''AA:BB'' init_node = Some (m, s')"
    by (simp add: GenerateMetrics_def main_config_def Let_def periodicFetchData_def)
  have "hasPM main_config" "lastPM2 init_node = 0" by (simp_all add: main_config_def init_node_def)
  from GenerateMetrics_pm02_unread [OF this g] g show ?thesis by (simp add: main_config_def)
qed

end
