(* ===== verification/AG_Http.thy ===== *)
theory AG_Http
  imports AG_Metrics
begin

text \<open>
  The HTTP side (\<open>src/main.cpp\<close>: \<open>HandleRoot\<close>, \<open>HandleNotFound\<close>, the routes of
  \<open>setup()\<close> and \<open>server.handleClient()\<close> in \<open>loop()\<close>; \<open>src/Prometheus/Server.cpp\<close>: the
  same handlers as methods of \<open>Prometheus::Server\<close>). The web server library is external:
  a request is its path, method and query arguments, a response its status, content
  type and body. \<open>server.on(path, handler)\<close> registers a handler for every method, so
  the two registered paths answer any method; every other path goes to the not-found
  handler, which lists the request back.
\<close>

datatype HTTPMethod = HTTP_ANY | HTTP_GET | HTTP_HEAD | HTTP_POST | HTTP_PUT | HTTP_PATCH | HTTP_DELETE | HTTP_OPTIONS

record request =
  req_uri :: string
  req_method :: HTTPMethod
  req_args :: "(string \<times> string) list"

record response =
  status :: nat
  content_type :: string
  body :: string

definition HandleRoot :: "config \<Rightarrow> sensors \<Rightarrow> string \<Rightarrow> node \<Rightarrow> (response \<times> node) option" where
  "HandleRoot cfg env mac s =
     map_option (\<lambda>(doc, s'). (\<lparr>status = 200, content_type = ''text/plain'', body = doc\<rparr>, s'))
       (GenerateMetrics cfg env mac s)"

text \<open>The loop over the query arguments, \<open>for (unsigned int i = 0; i < server.args(); i++)\<close>,
  with the message as its accumulator.\<close>

function NotFound_args :: "(string \<times> string) list \<Rightarrow> nat \<Rightarrow> string \<Rightarrow> string" where
  "NotFound_args as i msg =
     (if i < length as
      then NotFound_args as (Suc i) (msg @ '' '' @ fst (as ! i) @ '': '' @ snd (as ! i) @ NL)
      else msg)"
  by pat_completeness auto
termination
  by (relation "measure (\<lambda>(as, i, msg). length as - i)") auto

definition HandleNotFound :: "request \<Rightarrow> response" where
  "HandleNotFound r =
     \<lparr>status = 404, content_type = ''text/html'',
      body = NotFound_args (req_args r) 0
               (''File Not Found'' @ NL @ NL @ ''URI: '' @ req_uri r @ NL @ ''Method: '' @
                (if req_method r = HTTP_GET then ''GET'' else ''POST'') @ NL @
                ''Arguments: '' @ String_int (int (length (req_args r))) @ NL)\<rparr>"

definition handleClient :: "config \<Rightarrow> sensors \<Rightarrow> string \<Rightarrow> request \<Rightarrow> node \<Rightarrow> (response \<times> node) option" where
  "handleClient cfg env mac r s =
     (if req_uri r = ''/'' then HandleRoot cfg env mac s
      else if req_uri r = ''/metrics'' then HandleRoot cfg env mac s
      else Some (HandleNotFound r, s))"

subsection \<open>The refactored server class\<close>

definition Server_handleRoot :: "config \<Rightarrow> string \<Rightarrow> MetricsData \<Rightarrow> response" where
  "Server_handleRoot cfg mac d =
     \<lparr>status = 200, content_type = ''text/plain'', body = Server_generateMetrics cfg mac d\<rparr>"

text \<open>The same loop with a signed index, \<open>for (int i = 0; i < _server->args(); i++)\<close>.\<close>

function Server_NotFound_args :: "(string \<times> string) list \<Rightarrow> int \<Rightarrow> string \<Rightarrow> string" where
  "Server_NotFound_args as i msg =
     (if i < int (length as)
      then Server_NotFound_args as (i + 1) (msg @ '' '' @ fst (as ! nat i) @ '': '' @ snd (as ! nat i) @ NL)
      else msg)"
  by pat_completeness auto
termination
  by (relation "measure (\<lambda>(as, i, msg). nat (int (length as) - i))") auto

definition Server_handleNotFound :: "request \<Rightarrow> response" where
  "Server_handleNotFound r =
     \<lparr>status = 404, content_type = ''text/html'',
      body = Server_NotFound_args (req_args r) 0
               (''File Not Found'' @ NL @ NL @ ''URI: '' @ req_uri r @ NL @ ''Method: '' @
                (if req_method r = HTTP_GET then ''GET'' else ''POST'') @ NL @
                ''Arguments: '' @ String_int (int (length (req_args r))) @ NL)\<rparr>"

definition Server_handleClient :: "config \<Rightarrow> string \<Rightarrow> MetricsData \<Rightarrow> request \<Rightarrow> response" where
  "Server_handleClient cfg mac d r =
     (if req_uri r = ''/'' then Server_handleRoot cfg mac d
      else if req_uri r = ''/metrics'' then Server_handleRoot cfg mac d
      else Server_handleNotFound r)"

definition arg_line :: "string \<times> string \<Rightarrow> string" where
  "arg_line a = '' '' @ fst a @ '': '' @ snd a @ NL"

declare NotFound_args.simps [simp del, model_simps] Server_NotFound_args.simps [simp del, model_simps]

subsection \<open>The argument loops\<close>

lemma NotFound_args_concat:
  "NotFound_args as i msg = msg @ concat (map arg_line (drop i as))"
proof (induction as i msg rule: NotFound_args.induct)
  case (1 as i msg)
  show ?case
  proof (cases "i < length as")
    case True
    have d: "drop i as = as ! i # drop (Suc i) as" using True by (simp add: Cons_nth_drop_Suc)
    have "NotFound_args as i msg = NotFound_args as (Suc i) (msg @ arg_line (as ! i))"
      using True by (simp add: NotFound_args.simps [of as i msg] arg_line_def)
    also have "\<dots> = (msg @ arg_line (as ! i)) @ concat (map arg_line (drop (Suc i) as))"
      using "1.IH" [OF True] unfolding arg_line_def .
    also have "\<dots> = msg @ concat (map arg_line (drop i as))" by (simp add: d)
    finally show ?thesis .
  next
    case False
    then show ?thesis by (simp add: NotFound_args.simps [of as i msg])
  qed
qed

lemma Server_NotFound_args_concat:
  "0 \<le> i \<Longrightarrow> Server_NotFound_args as i msg = msg @ concat (map arg_line (drop (nat i) as))"
proof (induction as i msg rule: Server_NotFound_args.induct)
  case (1 as i msg)
  show ?case
  proof (cases "i < int (length as)")
    case True
    with "1.prems" have lt: "nat i < length as" by simp
    have d: "drop (nat i) as = as ! nat i # drop (nat (i + 1)) as"
      using lt "1.prems" by (simp add: Cons_nth_drop_Suc nat_add_distrib)
    have "Server_NotFound_args as i msg = Server_NotFound_args as (i + 1) (msg @ arg_line (as ! nat i))"
      using True by (simp add: Server_NotFound_args.simps [of as i msg] arg_line_def)
    also have "\<dots> = (msg @ arg_line (as ! nat i)) @ concat (map arg_line (drop (nat (i + 1)) as))"
      using "1.IH" [OF True] "1.prems" unfolding arg_line_def by simp
    also have "\<dots> = msg @ concat (map arg_line (drop (nat i) as))" by (simp add: d)
    finally show ?thesis .
  next
    case False
    with "1.prems" show ?thesis by (simp add: Server_NotFound_args.simps [of as i msg])
  qed
qed

subsection \<open>Answers to requests\<close>

text \<open>
  C11 (functional, error path, spec section 6). A request for any path other than
  \<open>/\<close> and \<open>/metrics\<close> is answered without touching the sensors: status 404, and a body
  that lists the path, the method, the number of query arguments and then one
  \<open>name: value\<close> line per argument, in order. Every method other than GET is reported as
  POST.
\<close>

theorem handleClient_not_found:
  assumes "req_uri r \<noteq> ''/''" "req_uri r \<noteq> ''/metrics''"
  shows "handleClient cfg env mac r s = Some (HandleNotFound r, s) \<and> status (HandleNotFound r) = 404 \<and>
         content_type (HandleNotFound r) = ''text/html'' \<and>
         body (HandleNotFound r) =
           ''File Not Found'' @ NL @ NL @ ''URI: '' @ req_uri r @ NL @
           ''Method: '' @ (if req_method r = HTTP_GET then ''GET'' else ''POST'') @ NL @
           ''Arguments: '' @ String_int (int (length (req_args r))) @ NL @
           concat (map arg_line (req_args r))"
  using assms by (simp add: handleClient_def HandleNotFound_def NotFound_args_concat)

lemma handleClient_not_found_witness:
  "handleClient main_config \<lparr>pm_raw = \<lambda>_. 12, co2_raw = \<lambda>_. 415, sht_data = \<lambda>_. \<lparr>t = 21.5, rh = 45\<rparr>\<rparr> ''AA:BB''
     \<lparr>req_uri = ''/foo'', req_method = HTTP_DELETE, req_args = [(''a'', ''1''), (''b'', ''2'')]\<rparr> init_node =
   Some (\<lparr>status = 404, content_type = ''text/html'',
          body = ''File Not Found'' @ NL @ NL @ ''URI: /foo'' @ NL @ ''Method: POST'' @ NL @
                 ''Arguments: 2'' @ NL @ '' a: 1'' @ NL @ '' b: 2'' @ NL\<rparr>, init_node)"
proof -
  let ?r = "\<lparr>req_uri = ''/foo'', req_method = HTTP_DELETE, req_args = [(''a'', ''1''), (''b'', ''2'')]\<rparr>"
  have "req_uri ?r \<noteq> ''/''" "req_uri ?r \<noteq> ''/metrics''" by simp_all
  from handleClient_not_found [OF this, of main_config
      "\<lparr>pm_raw = \<lambda>_. 12, co2_raw = \<lambda>_. 415, sht_data = \<lambda>_. \<lparr>t = 21.5, rh = 45\<rparr>\<rparr>" "''AA:BB''" init_node]
  show ?thesis
    by (simp add: HandleNotFound_def NotFound_args_concat arg_line_def String_int_def utoa.simps digit_char_def)
qed

text \<open>
  C12 (equivalence). The refactored server's not-found handler, whose argument loop
  counts with a signed \<open>int\<close>, produces the same response as the sketch's, whose loop
  counts with an \<open>unsigned int\<close>.
\<close>

theorem Server_handleNotFound_eq: "Server_handleNotFound r = HandleNotFound r"
  by (simp add: Server_handleNotFound_def HandleNotFound_def NotFound_args_concat Server_NotFound_args_concat)

text \<open>
  C17 (refinement, spec section 6). The sketch's request handling is the refactored
  server's applied to the snapshot the sketch reads. On \<open>/\<close> and \<open>/metrics\<close> it answers
  with the refactored handler on the readings \<open>gather\<close> takes, whatever the method, so a
  POST is answered 200 as well. On every other path the snapshot is irrelevant and the
  state is unchanged.
\<close>

theorem handleClient_refines:
  "handleClient cfg env mac r s =
     (if req_uri r = ''/'' \<or> req_uri r = ''/metrics''
      then map_option (\<lambda>(d, s'). (Server_handleClient cfg mac d r, s')) (gather cfg env s)
      else Some (Server_handleClient cfg mac d r, s))"
  by (auto simp: handleClient_def HandleRoot_def Server_handleClient_def Server_handleRoot_def
      GenerateMetrics_gather Server_handleNotFound_def HandleNotFound_def NotFound_args_concat
      Server_NotFound_args_concat option.map_comp comp_def split_def)

end
