(* ===== verification/AG_Loop.thy ===== *)
theory AG_Loop
  imports AG_Node AG_Http
begin

text \<open>
  The sketch's entry points (\<open>src/main.cpp\<close>, \<open>setup()\<close> and \<open>loop()\<close>) and the runs
  they produce. \<open>setup()\<close> shows the chip id, wakes the particulate sensor and
  registers \<open>WakupPM2\<close> (when the sensor is present), waits for WiFi, showing a frame
  for every failed poll, then registers \<open>updateScreen\<close>. The wait is a
  \<open>partial_function (option)\<close> over the stream of connection states: it does not
  return if the network never comes up. The driver initialisation calls, the serial
  log, the WiFi configuration and the server start are external and leave no trace in
  the model. Each poll waits \<open>delay(500)\<close>, so \<open>updateScreen\<close> is registered \<open>500 k\<close>
  milliseconds after \<open>WakupPM2\<close> when the connection needed \<open>k\<close> failed polls.

  A run is \<open>setup()\<close> followed by \<open>loop()\<close> iterations at non-decreasing times, each
  serving at most one request (\<open>reach\<close>). The invariants of this theory hold in every
  state of every run.
\<close>

partial_function (option) wifi_wait :: "(nat \<Rightarrow> bool) \<Rightarrow> nat \<Rightarrow> node \<Rightarrow> (nat \<times> node) option" where
  "wifi_wait wifi_up k s =
     (if wifi_up k then Some (k, s)
      else wifi_wait wifi_up (Suc k) (showTextRectangle ''Trying to'' ''connect...'' True s))"

definition setup_sketch :: "config \<Rightarrow> nat \<Rightarrow> string \<Rightarrow> (nat \<Rightarrow> bool) \<Rightarrow> ms \<Rightarrow> (node \<times> ms) option" where
  "setup_sketch cfg chipId ip wifi_up t0 =
     (let s1 = showTextRectangle ''Init'' (utoa 16 chipId) True init_node;
          s2 = (if hasPM cfg
                then timer_every t0 (pmSensorOnPeriodMs cfg) H_WakupPM2 (snd (WakupPM2 cfg t0 s1))
                else s1)
      in map_option
           (\<lambda>(k, s3). let t1 = t0 + 500 * k in
              (timer_every t1 (screenUpdateFrequencyMs cfg) H_updateScreen
                 (showTextRectangle ''Listening To'' (ip @ '':'' @ String_int (port cfg)) True s3), t1))
           (wifi_wait wifi_up 0 s2))"

definition loop_step ::
  "config \<Rightarrow> sensors \<Rightarrow> string \<Rightarrow> ms \<Rightarrow> request option \<Rightarrow> node \<Rightarrow> (response option \<times> node) option" where
  "loop_step cfg env mac now req s =
     Option.bind (node_tick cfg env now s)
       (\<lambda>(fs, s1). case req of
           None \<Rightarrow> Some (None, s1)
         | Some r \<Rightarrow> map_option (\<lambda>(resp, s2). (Some resp, s2)) (handleClient cfg env mac r s1))"

inductive reach :: "config \<Rightarrow> sensors \<Rightarrow> string \<Rightarrow> ms \<Rightarrow> node \<Rightarrow> bool" for cfg env mac where
  boot: "setup_sketch cfg chipId ip wifi_up t0 = Some (s, t1) \<Longrightarrow> reach cfg env mac t1 s"
| step: "reach cfg env mac now s \<Longrightarrow> now \<le> now' \<Longrightarrow> loop_step cfg env mac now' req s = Some (resp, s') \<Longrightarrow>
         reach cfg env mac now' s'"

text \<open>The shape of the task table: each callback's tasks repeat or not as registered.\<close>

definition task_ok :: "handler task \<Rightarrow> bool" where
  "task_ok u \<longleftrightarrow> (case handler u of H_SleepPM2 \<Rightarrow> \<not> repeat u | _ \<Rightarrow> repeat u)"

definition count_handler :: "handler \<Rightarrow> node \<Rightarrow> nat" where
  "count_handler h s = length (filter (\<lambda>u. handler u = h) (tasks s))"

definition node_inv :: "config \<Rightarrow> node \<Rightarrow> bool" where
  "node_inv cfg s \<longleftrightarrow>
     sched_wf s \<and> 0 \<le> counter s \<and> counter s \<le> 3 \<and> 0 \<le> lastPM2 s \<and> (\<forall>u \<in> set (tasks s). task_ok u) \<and>
     count_handler H_updateScreen s = 1 \<and> count_handler H_WakupPM2 s = (if hasPM cfg then 1 else 0)"

text \<open>What the WiFi wait promises: it returns at the first poll \<open>j\<close> that finds the
  network up, having drawn one frame per failed poll.\<close>

definition wifi_post :: "(nat \<Rightarrow> bool) \<Rightarrow> nat \<Rightarrow> node \<Rightarrow> nat \<times> node \<Rightarrow> bool" where
  "wifi_post w k s r \<longleftrightarrow>
     k \<le> fst r \<and> w (fst r) \<and> (\<forall>i. k \<le> i \<and> i < fst r \<longrightarrow> \<not> w i) \<and>
     snd r = s\<lparr>hw_log := hw_log s @ replicate (fst r - k) (Frame ''Trying to'' ''connect...'' True)\<rparr>"

subsection \<open>Setup\<close>

lemma wifi_wait_result:
  assumes "wifi_wait w k s = Some r"
  shows "wifi_post w k s r"
proof (rule wifi_wait.raw_induct [where P = wifi_post, OF _ assms])
  fix f w k s r
  assume IH: "\<And>w k s r. f w k s = Some r \<Longrightarrow> wifi_post w k s r"
    and eq: "(if w k then Some (k, s)
              else f w (Suc k) (showTextRectangle ''Trying to'' ''connect...'' True s)) = Some r"
  show "wifi_post w k s r"
  proof (cases "w k")
    case True
    with eq show ?thesis by (auto simp: wifi_post_def)
  next
    case False
    with eq have "wifi_post w (Suc k) (showTextRectangle ''Trying to'' ''connect...'' True s) r"
      by (intro IH) simp
    then have j: "Suc k \<le> fst r" "w (fst r)" "\<forall>i. Suc k \<le> i \<and> i < fst r \<longrightarrow> \<not> w i"
      and s': "snd r = s\<lparr>hw_log := hw_log s @ Frame ''Trying to'' ''connect...'' True #
                                replicate (fst r - Suc k) (Frame ''Trying to'' ''connect...'' True)\<rparr>"
      by (simp_all add: wifi_post_def showTextRectangle_def)
    have "\<forall>i. k \<le> i \<and> i < fst r \<longrightarrow> \<not> w i"
    proof (intro allI impI)
      fix i assume "k \<le> i \<and> i < fst r"
      with False j(3) show "\<not> w i" by (cases "i = k") auto
    qed
    moreover have "replicate (fst r - k) (Frame ''Trying to'' ''connect...'' True) =
        Frame ''Trying to'' ''connect...'' True # replicate (fst r - Suc k) (Frame ''Trying to'' ''connect...'' True)"
      using j(1) by (simp add: Suc_diff_Suc [symmetric])
    ultimately show ?thesis using j s' by (simp add: wifi_post_def)
  qed
qed

lemma wifi_wait_first:
  assumes "k \<le> j" "w j" "\<forall>i. k \<le> i \<and> i < j \<longrightarrow> \<not> w i"
  shows "wifi_wait w k s =
           Some (j, s\<lparr>hw_log := hw_log s @ replicate (j - k) (Frame ''Trying to'' ''connect...'' True)\<rparr>)"
  using assms
proof (induction "j - k" arbitrary: k s)
  case 0
  then show ?case by (simp add: wifi_wait.simps)
next
  case (Suc d)
  then have lt: "k < j" and nw: "\<not> w k" by auto
  have "wifi_wait w (Suc k) (showTextRectangle ''Trying to'' ''connect...'' True s) =
        Some (j, (showTextRectangle ''Trying to'' ''connect...'' True s)\<lparr>hw_log :=
          hw_log (showTextRectangle ''Trying to'' ''connect...'' True s) @
          replicate (j - Suc k) (Frame ''Trying to'' ''connect...'' True)\<rparr>)"
    using Suc lt by (intro Suc.hyps(1)) auto
  moreover have "replicate (j - k) (Frame ''Trying to'' ''connect...'' True) =
                 Frame ''Trying to'' ''connect...'' True # replicate (j - Suc k) (Frame ''Trying to'' ''connect...'' True)"
    using lt by (simp add: Suc_diff_Suc [symmetric])
  ultimately show ?case using nw by (subst wifi_wait.simps) (simp add: showTextRectangle_def)
qed

subsection \<open>What a request changes\<close>

text \<open>Serving a request moves the CO2 and temperature/humidity read cursors and nothing else.\<close>

lemma GenerateMetrics_cursors:
  assumes "GenerateMetrics cfg env mac s = Some (m, s')"
  shows "\<exists>a b. s' = s\<lparr>co2_pos := a, sht_pos := b\<rparr>"
proof -
  obtain m2 s2 where s2: "(if hasCO2 cfg then map_option (\<lambda>(stat, s1). (m2, s1)) (GetCO2 env s)
                           else Some (m2, s)) = Some (m2, s2)"
    and s': "s' = (if hasSHT cfg then snd (periodicFetchData env s2) else s2)"
    using assms by (auto simp: GenerateMetrics_def Let_def bind_eq_Some_split split: if_splits prod.splits)
  have "\<exists>a. s2 = s\<lparr>co2_pos := a\<rparr>"
  proof (cases "hasCO2 cfg")
    case True
    with s2 obtain v where "GetCO2 env s = Some (v, s2)" by auto
    from GetCO2_result [OF this] show ?thesis by blast
  next
    case False
    with s2 have "s2 = s\<lparr>co2_pos := co2_pos s\<rparr>" by simp
    then show ?thesis ..
  qed
  then obtain a where "s2 = s\<lparr>co2_pos := a\<rparr>" ..
  then have "s' = s\<lparr>co2_pos := a, sht_pos := (if hasSHT cfg then Suc (sht_pos s) else sht_pos s)\<rparr>"
    using s' by (simp add: periodicFetchData_def)
  then show ?thesis by blast
qed

lemma handleClient_cursors:
  "handleClient cfg env mac r s = Some (resp, s') \<Longrightarrow> \<exists>a b. s' = s\<lparr>co2_pos := a, sht_pos := b\<rparr>"
  unfolding handleClient_def HandleRoot_def
proof (auto split: if_splits dest: GenerateMetrics_cursors)
  show "\<exists>a b. s' = s'\<lparr>co2_pos := a, sht_pos := b\<rparr>"
    by (rule exI [of _ "co2_pos s'"], rule exI [of _ "sht_pos s'"]) simp
qed

subsection \<open>What a firing changes\<close>

lemma handler_comp_rearm [simp]:
  "(\<lambda>u. handler u = h) \<circ> (\<lambda>u. if tid u = i then rearm now u else u) = (\<lambda>u. handler u = h)"
  by (rule ext) simp

lemma task_ok_iff: "task_ok u \<longleftrightarrow> (repeat u \<longleftrightarrow> handler u \<noteq> H_SleepPM2)"
  by (cases "handler u") (simp_all add: task_ok_def)

lemma task_ok_rearm [simp]: "task_ok (rearm now u) = task_ok u"
  by (simp add: task_ok_def split: handler.split)

lemma filter_remove_other:
  assumes "sched_wf s" "x \<in> set (tasks s)" "handler x \<noteq> h"
  shows "filter (\<lambda>u. tid u \<noteq> tid x \<and> handler u = h) (tasks s) = filter (\<lambda>u. handler u = h) (tasks s)"
proof (rule filter_cong [OF refl])
  fix u assume "u \<in> set (tasks s)"
  with assms show "(tid u \<noteq> tid x \<and> handler u = h) = (handler u = h)"
    using sched_wf_tid_inj [of s u x] by auto
qed

lemma node_fire_inv:
  assumes on: "0 < pmSensorOnForMs cfg" and inv: "node_inv cfg s" and tin: "x \<in> set (tasks s)"
    and f: "fire (run_handler cfg env) now x s = Some s'"
  shows "node_inv cfg s'"
proof -
  have wf: "sched_wf s'"
    using fire_wf [OF runner_ok_run_handler [OF on] f] inv tin by (simp add: node_inv_def)
  have ok: "task_ok x" using inv tin by (simp add: node_inv_def)
  show ?thesis
  proof (cases "handler x")
    case H_updateScreen
    with ok have rep: "repeat x" by (simp add: task_ok_def)
    from f rep H_updateScreen obtain keep s1 where us: "updateScreen cfg env s = Some (keep, s1)"
      and s': "s' = (if keep then update_task (tid x) (rearm now) s1 else remove_task (tid x) s1)"
      by (auto simp: fire_def bind_eq_Some_split split: prod.splits)
    from updateScreen_sched [OF us] s' have
      "s' = update_task (tid x) (rearm now) s1" "tasks s1 = tasks s" "lastPM2 s1 = lastPM2 s"
      "counter s1 = (if 3 < counter s + 1 then 0 else counter s + 1)" by auto
    with inv wf show ?thesis by (auto simp: node_inv_def count_handler_def update_task_def)
  next
    case H_WakupPM2
    with ok have rep: "repeat x" by (simp add: task_ok_def)
    from f rep H_WakupPM2 have s': "s' = update_task (tid x) (rearm now) (snd (WakupPM2 cfg now s))"
      by (simp add: fire_def WakupPM2_def)
    have lt: "tid x < next_id s" using inv tin by (simp add: node_inv_def sched_wf_def)
    have new: "task_ok \<lparr>tid = next_id s, handler = H_SleepPM2, target = now + pmSensorOnForMs cfg,
                          period = pmSensorOnForMs cfg, repeat = False\<rparr>" by (simp add: task_ok_def)
    from s' inv wf lt new show ?thesis
      by (auto simp: node_inv_def count_handler_def update_task_def WakupPM2_eq)
  next
    case H_SleepPM2
    with ok have rep: "\<not> repeat x" by (simp add: task_ok_def)
    from f rep H_SleepPM2 have s': "s' = snd (SleepPM2 env (remove_task (tid x) s))"
      by (auto simp: fire_def)
    have "0 \<le> lastPM2 s'" using inv s' by (simp add: SleepPM2_eq Let_def sleep_def node_inv_def remove_task_def)
    moreover have "counter s' = counter s" "tasks s' = filter (\<lambda>u. tid u \<noteq> tid x) (tasks s)"
      using s' by (simp_all add: remove_task_def)
    moreover have "sched_wf s" using inv by (simp add: node_inv_def)
    ultimately show ?thesis using inv wf H_SleepPM2 tin
      by (auto simp: node_inv_def count_handler_def filter_remove_other)
  qed
qed

lemma setup_sketch_Some:
  assumes "setup_sketch cfg chipId ip w t0 = Some (s, t1)"
  shows "\<exists>j. w j \<and> (\<forall>i<j. \<not> w i) \<and> t1 = t0 + 500 * j \<and>
           s = timer_every t1 (screenUpdateFrequencyMs cfg) H_updateScreen
                 (showTextRectangle ''Listening To'' (ip @ '':'' @ String_int (port cfg)) True
                   ((if hasPM cfg
                     then timer_every t0 (pmSensorOnPeriodMs cfg) H_WakupPM2
                            (snd (WakupPM2 cfg t0 (showTextRectangle ''Init'' (utoa 16 chipId) True init_node)))
                     else showTextRectangle ''Init'' (utoa 16 chipId) True init_node)
                    \<lparr>hw_log := hw_log (if hasPM cfg
                     then timer_every t0 (pmSensorOnPeriodMs cfg) H_WakupPM2
                            (snd (WakupPM2 cfg t0 (showTextRectangle ''Init'' (utoa 16 chipId) True init_node)))
                     else showTextRectangle ''Init'' (utoa 16 chipId) True init_node) @
                       replicate j (Frame ''Trying to'' ''connect...'' True)\<rparr>))"
proof -
  from assms obtain r where ww: "wifi_wait w 0 (if hasPM cfg
                     then timer_every t0 (pmSensorOnPeriodMs cfg) H_WakupPM2
                            (snd (WakupPM2 cfg t0 (showTextRectangle ''Init'' (utoa 16 chipId) True init_node)))
                     else showTextRectangle ''Init'' (utoa 16 chipId) True init_node) = Some r"
    and s: "(s, t1) = (timer_every (t0 + 500 * fst r) (screenUpdateFrequencyMs cfg) H_updateScreen
                 (showTextRectangle ''Listening To'' (ip @ '':'' @ String_int (port cfg)) True (snd r)),
                 t0 + 500 * fst r)"
    by (auto simp: setup_sketch_def Let_def split: prod.splits)
  from wifi_wait_result [OF ww] s show ?thesis by (auto simp: wifi_post_def)
qed

lemma setup_inv:
  assumes "timing_ok cfg" "setup_sketch cfg chipId ip w t0 = Some (s, t1)"
  shows "node_inv cfg s"
  using setup_sketch_Some [OF assms(2)] assms(1)
  by (auto simp: node_inv_def sched_wf_def count_handler_def task_ok_def timing_ok_def timer_every_def
      add_task_def showTextRectangle_def WakupPM2_eq init_node_def)

lemma node_inv_cursors [simp]: "node_inv cfg (s\<lparr>co2_pos := a, sht_pos := b\<rparr>) = node_inv cfg s"
  by (simp add: node_inv_def sched_wf_def count_handler_def)

lemma loop_step_inv:
  assumes on: "0 < pmSensorOnForMs cfg" and inv: "node_inv cfg s"
    and st: "loop_step cfg env mac now req s = Some (resp, s')"
  shows "node_inv cfg s'"
proof -
  from st obtain fs s1 where tk: "node_tick cfg env now s = Some (fs, s1)"
    and rest: "(case req of None \<Rightarrow> Some (None, s1)
               | Some r \<Rightarrow> map_option (\<lambda>(resp, s2). (Some resp, s2)) (handleClient cfg env mac r s1)) =
               Some (resp, s')"
    by (auto simp: loop_step_def bind_eq_Some_split)
  have "node_inv cfg s1"
    using tk [unfolded node_tick_def] inv
    by (rule tick_preserves [where Q = "node_inv cfg", rotated]) (blast intro: node_fire_inv [OF on])
  with rest show ?thesis by (auto split: option.splits dest!: handleClient_cursors)
qed

lemma reach_inv:
  assumes "timing_ok cfg" "reach cfg env mac now s"
  shows "node_inv cfg s"
  using assms(2)
proof induction
  case (boot chipId ip wifi_up t0 s t1)
  with assms(1) show ?case by (rule setup_inv)
next
  case (step now s now' req resp s')
  from assms(1) have "0 < pmSensorOnForMs cfg" by (simp add: timing_ok_def)
  then show ?case using step.IH step.hyps(3) by (rule loop_step_inv)
qed

subsection \<open>The particulate sensor over a run\<close>

lemma fire_run_handler_cases:
  assumes "fire (run_handler cfg env) now x s = Some s'"
  obtains s0 keep s1 where "run_handler cfg env (handler x) now s0 = Some (keep, s1)"
    "s0 = s \<or> s0 = remove_task (tid x) s"
    "s' = s1 \<or> s' = update_task (tid x) (rearm now) s1 \<or> s' = remove_task (tid x) s1"
  using assms
  by (auto simp: fire_def bind_eq_Some_split map_option_eq_Some_split split: if_splits prod.splits)

lemma node_fire_awake:
  assumes "pm_power s = AWAKE" "\<forall>k. pm_raw env k = 0" "fire (run_handler cfg env) now x s = Some s'"
  shows "pm_power s' = AWAKE"
proof -
  from assms(3) obtain s0 keep s1 where r: "run_handler cfg env (handler x) now s0 = Some (keep, s1)"
    and s0: "pm_power s0 = AWAKE" and s': "pm_power s' = pm_power s1"
    by (rule fire_run_handler_cases) (auto simp: assms(1) remove_task_def update_task_def)
  show ?thesis
  proof (cases "handler x")
    case H_updateScreen
    with r s0 s' show ?thesis by (auto dest: updateScreen_sched)
  next
    case H_WakupPM2
    with r s' show ?thesis by (auto simp: WakupPM2_eq)
  next
    case H_SleepPM2
    with r s0 s' assms(2) show ?thesis by (auto simp: SleepPM2_eq Let_def)
  qed
qed

lemma loop_step_awake:
  assumes "pm_power s = AWAKE" "\<forall>k. pm_raw env k = 0" "loop_step cfg env mac now req s = Some (resp, s')"
  shows "pm_power s' = AWAKE"
proof -
  from assms(3) obtain fs s1 where tk: "node_tick cfg env now s = Some (fs, s1)"
    and rest: "(case req of None \<Rightarrow> Some (None, s1)
               | Some r \<Rightarrow> map_option (\<lambda>(resp, s2). (Some resp, s2)) (handleClient cfg env mac r s1)) =
               Some (resp, s')"
    by (auto simp: loop_step_def bind_eq_Some_split)
  have "pm_power s1 = AWAKE"
    using tk [unfolded node_tick_def] assms(1)
    by (rule tick_preserves [where Q = "\<lambda>s. pm_power s = AWAKE", rotated]) (rule node_fire_awake [OF _ assms(2)])
  with rest show ?thesis by (auto split: option.splits dest!: handleClient_cursors)
qed

lemma wifi_wait_never:
  assumes "\<forall>i. \<not> w i"
  shows "wifi_wait w k s = None"
proof (rule ccontr)
  assume "wifi_wait w k s \<noteq> None"
  then obtain r where "wifi_wait w k s = Some r" by auto
  then have "wifi_post w k s r" by (rule wifi_wait_result)
  with assms show False by (simp add: wifi_post_def)
qed

subsection \<open>Properties of the sketch\<close>

text \<open>
  C13 (functional, termination). When the network comes up at poll \<open>j\<close>, \<open>setup()\<close>
  returns \<open>500 j\<close> milliseconds after it started. Its task table is then, in
  registration order: the one-shot \<open>SleepPM2\<close> armed by the first \<open>WakupPM2\<close>, the
  recurring \<open>WakupPM2\<close> (both only with a particulate sensor), and the recurring
  \<open>updateScreen\<close>. The display shows the chip id, one frame per failed poll and the
  address; the sensor is awake and the phase and cache are zero.
\<close>

theorem setup_sketch_registers:
  assumes "w j" "\<forall>i<j. \<not> w i"
  shows "\<exists>s. setup_sketch cfg chipId ip w t0 = Some (s, t0 + 500 * j) \<and>
           tasks s =
             (if hasPM cfg
              then [\<lparr>tid = 0, handler = H_SleepPM2, target = t0 + pmSensorOnForMs cfg,
                      period = pmSensorOnForMs cfg, repeat = False\<rparr>,
                    \<lparr>tid = 1, handler = H_WakupPM2, target = t0 + pmSensorOnPeriodMs cfg,
                      period = pmSensorOnPeriodMs cfg, repeat = True\<rparr>]
              else []) @
             [\<lparr>tid = (if hasPM cfg then 2 else 0), handler = H_updateScreen,
               target = t0 + 500 * j + screenUpdateFrequencyMs cfg,
               period = screenUpdateFrequencyMs cfg, repeat = True\<rparr>] \<and>
           hw_log s =
             Frame ''Init'' (utoa 16 chipId) True # (if hasPM cfg then [PMS_Wake] else []) @
             replicate j (Frame ''Trying to'' ''connect...'' True) @
             [Frame ''Listening To'' (ip @ '':'' @ String_int (port cfg)) True] \<and>
           pm_power s = AWAKE \<and> counter s = 0 \<and> lastPM2 s = 0"
proof -
  have ww: "\<And>s. wifi_wait w 0 s = Some (j, s\<lparr>hw_log := hw_log s @ replicate j (Frame ''Trying to'' ''connect...'' True)\<rparr>)"
    using wifi_wait_first [of 0 j w] assms by simp
  show ?thesis
    by (cases "hasPM cfg")
      (simp_all add: setup_sketch_def Let_def ww WakupPM2_eq timer_every_def add_task_def
         showTextRectangle_def init_node_def)
qed

text \<open>
  C14 (error path). When the network never comes up, \<open>setup()\<close> never returns: the
  WiFi wait of \<open>src/main.cpp\<close> polls for ever and \<open>loop()\<close> is never reached.
\<close>

theorem setup_sketch_hangs:
  assumes "\<forall>i. \<not> w i"
  shows "setup_sketch cfg chipId ip w t0 = None"
  using wifi_wait_never [OF assms] by (simp add: setup_sketch_def Let_def)

text \<open>
  C15 (invariant). In every state of every run, with consistent timing settings: the
  task table is well formed, the display phase lies in \<open>[0, 3]\<close>, the cached
  particulate value is non-negative, exactly one \<open>updateScreen\<close> task and (with a
  particulate sensor) exactly one \<open>WakupPM2\<close> task are armed, and both stay recurring:
  no callback ever cancels them, and only \<open>SleepPM2\<close> tasks are one-shot.
\<close>

theorem reach_invariant:
  assumes "timing_ok cfg" "reach cfg env mac now s"
  shows "sched_wf s \<and> 0 \<le> counter s \<and> counter s \<le> 3 \<and> 0 \<le> lastPM2 s \<and>
         count_handler H_updateScreen s = 1 \<and> count_handler H_WakupPM2 s = (if hasPM cfg then 1 else 0) \<and>
         (\<forall>u \<in> set (tasks s). repeat u \<longleftrightarrow> handler u \<noteq> H_SleepPM2)"
proof -
  have "node_inv cfg s" using assms by (rule reach_inv)
  then show ?thesis by (simp add: node_inv_def task_ok_iff)
qed

text \<open>
  C16 (safety, spec section 8). The sensor is put to sleep only after a non-zero
  reading: when the particulate sensor only ever reads 0, it stays awake in every state
  of every run, whatever requests arrive and however late the ticks come.
\<close>

theorem reach_zero_pm_awake:
  assumes "\<forall>k. pm_raw env k = 0" "reach cfg env mac now s"
  shows "pm_power s = AWAKE"
  using assms(2)
proof induction
  case (boot chipId ip wifi_up t0 s t1)
  then show ?case
    using setup_sketch_Some [OF boot]
    by (auto simp: timer_every_def add_task_def showTextRectangle_def WakupPM2_eq init_node_def)
next
  case (step now s now' req resp s')
  then show ?case using assms(1) by (blast intro: loop_step_awake)
qed

lemma setup_sketch_registers_witness:
  "map handler (tasks (fst (the (setup_sketch main_config 7 ''10.0.0.2'' (\<lambda>i. 2 \<le> i) 0)))) =
     [H_SleepPM2, H_WakupPM2, H_updateScreen] \<and>
   snd (the (setup_sketch main_config 7 ''10.0.0.2'' (\<lambda>i. 2 \<le> i) 0)) = 1000 \<and>
   length (hw_log (fst (the (setup_sketch main_config 7 ''10.0.0.2'' (\<lambda>i. 2 \<le> i) 0)))) = 5"
proof -
  from setup_sketch_registers [of "\<lambda>i. 2 \<le> i" 2 main_config 7 "''10.0.0.2''" 0]
  obtain s where "setup_sketch main_config 7 ''10.0.0.2'' (\<lambda>i. 2 \<le> i) 0 = Some (s, 1000)"
    "map handler (tasks s) = [H_SleepPM2, H_WakupPM2, H_updateScreen]" "length (hw_log s) = 5"
    by (auto simp: main_config_def)
  then show ?thesis by simp
qed

lemma setup_sketch_hangs_witness:
  "setup_sketch main_config 7 ''10.0.0.2'' (\<lambda>_. False) 0 = None"
  using setup_sketch_hangs [of "\<lambda>_. False" main_config 7 "''10.0.0.2''" 0] by simp

lemma setup_sketch_boot:
  "setup_sketch main_config 7 ''10.0.0.2'' (\<lambda>_. True) 0 = Some (fst (the (setup_sketch main_config 7 ''10.0.0.2'' (\<lambda>_. True) 0)), 0)"
  by (simp add: setup_sketch_def Let_def wifi_wait.simps)

lemma reach_invariant_witness:
  "reach main_config \<lparr>pm_raw = \<lambda>_. 0, co2_raw = \<lambda>_. 415, sht_data = \<lambda>_. \<lparr>t = 21.5, rh = 45\<rparr>\<rparr> ''mac'' 0 (fst (the (setup_sketch main_config 7 ''10.0.0.2'' (\<lambda>_. True) 0))) \<and>
   count_handler H_updateScreen (fst (the (setup_sketch main_config 7 ''10.0.0.2'' (\<lambda>_. True) 0))) = 1 \<and>
   count_handler H_WakupPM2 (fst (the (setup_sketch main_config 7 ''10.0.0.2'' (\<lambda>_. True) 0))) = 1 \<and> counter (fst (the (setup_sketch main_config 7 ''10.0.0.2'' (\<lambda>_. True) 0))) = 0"
proof -
  have r: "reach main_config \<lparr>pm_raw = \<lambda>_. 0, co2_raw = \<lambda>_. 415, sht_data = \<lambda>_. \<lparr>t = 21.5, rh = 45\<rparr>\<rparr> ''mac'' 0 (fst (the (setup_sketch main_config 7 ''10.0.0.2'' (\<lambda>_. True) 0)))"
    by (rule reach.boot [OF setup_sketch_boot])
  from reach_invariant [OF timing_ok_main r] r show ?thesis
    by (simp add: setup_sketch_def Let_def wifi_wait.simps timer_every_def add_task_def
        showTextRectangle_def WakupPM2_eq init_node_def main_config_def)
qed

lemma reach_zero_pm_awake_witness:
  "reach main_config \<lparr>pm_raw = \<lambda>_. 0, co2_raw = \<lambda>_. 415, sht_data = \<lambda>_. \<lparr>t = 21.5, rh = 45\<rparr>\<rparr> ''mac'' 0 (fst (the (setup_sketch main_config 7 ''10.0.0.2'' (\<lambda>_. True) 0))) \<and>
   pm_power (fst (the (setup_sketch main_config 7 ''10.0.0.2'' (\<lambda>_. True) 0))) = AWAKE"
proof -
  have r: "reach main_config \<lparr>pm_raw = \<lambda>_. 0, co2_raw = \<lambda>_. 415, sht_data = \<lambda>_. \<lparr>t = 21.5, rh = 45\<rparr>\<rparr> ''mac'' 0 (fst (the (setup_sketch main_config 7 ''10.0.0.2'' (\<lambda>_. True) 0)))"
    by (rule reach.boot [OF setup_sketch_boot])
  with reach_zero_pm_awake [of "\<lparr>pm_raw = \<lambda>_. 0, co2_raw = \<lambda>_. 415, sht_data = \<lambda>_. \<lparr>t = 21.5, rh = 45\<rparr>\<rparr>", OF _ r] show ?thesis by simp
qed

end
