(* ===== verification/Spec2Isabelle.thy ===== *)
theory Spec2Isabelle
  imports AG_Loop
begin

text \<open>
  \<^bold>\<open>A verification model of the AirGradient DIY sensor firmware.\<close>

  \<^bold>\<open>The program.\<close> \<open>src/main.cpp\<close> is an Arduino sketch for an ESP8266 node with a PMS
  particulate sensor, a CO2 sensor and an SHT temperature/humidity sensor, a small
  display, and an HTTP server that serves the latest readings to Prometheus.
  \<open>setup()\<close> registers three timer callbacks: \<open>WakupPM2\<close> (every
  \<open>pmSensorOnPeriodMs\<close>: wake the particulate sensor, arm a one-shot \<open>SleepPM2\<close>),
  \<open>SleepPM2\<close> (\<open>pmSensorOnForMs\<close> later: refresh the cached PM2.5 value, put the sensor
  to sleep after a non-zero reading), and \<open>updateScreen\<close> (every
  \<open>screenUpdateFrequencyMs\<close>: show one of four readings, rotating). \<open>loop()\<close> calls
  \<open>timer.tick()\<close> and then \<open>server.handleClient()\<close>. The CO2 read retries without bound
  until the sensor reports a value in \<open>(0, 60000)\<close>. \<open>src/Prometheus/Server.cpp\<close> is a
  refactored HTTP server class that exports cached readings, and
  \<open>src/Configuration/user.cpp\<close> holds its settings.

  \<^bold>\<open>The theories.\<close>
  \<^item> \<open>AG_Prelude\<close>: the time and integer types, rule collections, list and option lemmas.
  \<^item> \<open>AG_String\<close>: Arduino \<open>String\<close> conversions (\<open>itoa\<close>, \<open>dtostrf\<close>) as the core
    library defines them, and a decimal parser with the round trip.
  \<^item> \<open>AG_Config\<close>: the configuration block of \<open>main.cpp\<close> and the settings of \<open>user.cpp\<close>.
  \<^item> \<open>AG_Timer\<close>: the \<open>arduino-timer\<close> scheduler (a library outside \<open>src/\<close>, modelled
    from spec section 4.1), generic in its callbacks: a tick fires the due tasks in
    registration order (\<open>tick_fired\<close>), keeps the table well formed and leaves nothing
    due (\<open>tick_settles\<close>), for any callbacks that only append fresh future tasks.
  \<^item> \<open>AG_State\<close>: the sketch's state as a record extending the timer's, and the driver
    primitives. Sensors are streams of raw readings; the state counts the reads taken.
  \<^item> \<open>AG_Sensors\<close>: \<open>GetCO2\<close> (a \<open>partial_function (option)\<close>: \<open>None\<close> is the retry loop
    that never ends), \<open>GetPM2\<close>, \<open>SetCurrentPM2\<close>.
  \<^item> \<open>AG_Power\<close>: \<open>WakupPM2\<close> and \<open>SleepPM2\<close>, the particulate sensor's duty cycle.
  \<^item> \<open>AG_Display\<close>: \<open>showTextRectangle\<close> and \<open>updateScreen\<close>, the four-phase rotation.
  \<^item> \<open>AG_Node\<close>: the callbacks dispatched by the timer (\<open>run_handler\<close>), the proof that
    they meet the scheduler's contract, and \<open>timer.tick()\<close> on the sketch.
  \<^item> \<open>AG_Metrics\<close>: the two Prometheus exporters, \<open>GenerateMetrics\<close> of \<open>main.cpp\<close>
    (which reads the sensors) and \<open>_generateMetrics\<close> of \<open>Server.cpp\<close> (a pure
    function of a snapshot \<open>MetricsData\<close>), the reference document of spec section 4.5
    (\<open>metrics_spec\<close>), and a scraper (\<open>samples\<close>) that reads the text back.
  \<^item> \<open>AG_Http\<close>: \<open>HandleRoot\<close>, \<open>HandleNotFound\<close> and its argument loop, the routing
    that \<open>server.on\<close> sets up (\<open>handleClient\<close>), and the same handlers of the
    \<open>Prometheus::Server\<close> class.
  \<^item> \<open>AG_Loop\<close>: \<open>setup()\<close> (\<open>setup_sketch\<close>, with the WiFi wait \<open>wifi_wait\<close> as a
    \<open>partial_function (option)\<close> over the stream of connection states), one iteration
    of \<open>loop()\<close> (\<open>loop_step\<close>: a tick, then at most one request), and the runs of the
    sketch as the inductive relation \<open>reach\<close> (setup, then loop steps at non-decreasing
    times). The run invariant \<open>node_inv\<close> is proved by rule induction. A firing
    preserves it (\<open>node_fire_inv\<close>, lifted through a whole tick by \<open>tick_preserves\<close>),
    and a request moves only the sensor cursors (\<open>handleClient_cursors\<close>).

  \<^bold>\<open>Modelling choices.\<close> Time is \<open>nat\<close> milliseconds and does not advance inside one
  tick (handlers are instantaneous; the blocking CO2 retries stall the tick but do not
  move the clock of the model). C \<open>int\<close>s are \<open>int\<close>: the values involved (the phase in
  \<open>[0, 3]\<close>, sensor readings) stay far inside 32 bits. Floats are \<open>real\<close>, so rounding
  is exact where the device rounds in binary. Serial logging, WiFi association, the
  pixel rendering of the display and the HTTP transport are not modelled: the display
  is the list of frames drawn, the hardware the list of commands sent. A tick visits
  the tasks present when it starts; a task registered by a callback first runs at a
  later tick (the spec does not say; callbacks here register only future tasks).

  \<^bold>\<open>Bounds and fuel.\<close> No fuel is used. The two unbounded loops of the
  sketch (the CO2 retry loop and the WiFi wait) are \<open>partial_function (option)\<close>s. Each
  is proved to return exactly when its stream eventually yields a good value
  (C4, C13), and to give \<open>None\<close> otherwise (C5, C14). The
  scheduler's loop is structural recursion on the snapshot of task identifiers, and
  the argument loops of the 404 pages are \<open>function\<close>s with a measure.

  \<^bold>\<open>Main results.\<close>
  \<^item> C1--C2: the scheduler on the sketch.
  \<^item> C3: the power cycle, including the stale-cache sleep on a negative reading.
  \<^item> C4--C5: the CO2 retry loop returns the first valid reading exactly when one comes,
    and never returns otherwise.
  \<^item> C6: the display rotation.
  \<^item> C7--C10: the exporters. The refactored exporter meets the reference document; a
    scrape round trip recovers the values; the CO2 switch removes one block; and the
    sketch's exporter refines the refactored one on the snapshot it reads.
  \<^item> C11--C12: the 404 page, and the equivalence of its two implementations.
  \<^item> C13--C14: what \<open>setup()\<close> registers, and that it hangs without a network.
  \<^item> C15: the invariant of every run.
  \<^item> C16: with persistently zero particulate readings the sensor is never put to
    sleep. This is the policy gap the spec asks to preserve.
  \<^item> C17: the sketch's request handling refines the \<open>Server\<close> class's handler on the
    snapshot it reads, for every method.
  \<^item> C18: before the first positive particulate reading, the sketch exports pm02 as 0
    instead of omitting it.

  \<^bold>\<open>Not modelled.\<close> Serial output, the WiFi stack and its configuration, the display
  driver's rendering, the sensor drivers' bus protocol and initialisation (their
  readings are streams), the HTTP transport, and the \<open>Metrics::Gatherer\<close> class that
  feeds \<open>Server.cpp\<close> (outside \<open>src/\<close>). The \<open>Server\<close> class's constructor and
  destructor only create and stop the transport.
\<close>

end
